theory Spec2Isabelle
  imports Complex_Main "HOL-Library.Word"
begin

section \<open>Presets (src/src/core/presets.ts)\<close>

text \<open>
  \<^verbatim>\<open>type CompressionPreset = 'lossless' | 'balanced' | 'max'\<close>. The constructor for
  \<^verbatim>\<open>max\<close> is \<open>MaxPreset\<close>, since \<open>Max\<close> is the lattice operation.
\<close>

datatype preset = Lossless | Balanced | MaxPreset

fun presetName :: "preset \<Rightarrow> string" where
  "presetName Lossless = ''lossless''"
| "presetName Balanced = ''balanced''"
| "presetName MaxPreset = ''max''"

text \<open>\<^verbatim>\<open>getFallbackPreset\<close>: the next milder preset, \<^verbatim>\<open>undefined\<close> for lossless.\<close>

fun getFallbackPreset :: "preset \<Rightarrow> preset option" where
  "getFallbackPreset MaxPreset = Some Balanced"
| "getFallbackPreset Balanced = Some Lossless"
| "getFallbackPreset Lossless = None"

text \<open>
  \<^verbatim>\<open>getPresetFallbackChain\<close> runs \<^verbatim>\<open>while (true)\<close>, pushing the fallback of
  \<^verbatim>\<open>current\<close> until there is none. \<open>chainLoop\<close> is that loop with the chain built so far
  and the current preset as its state; it terminates because every fallback is milder.
\<close>

fun presetRank :: "preset \<Rightarrow> nat" where
  "presetRank Lossless = 0"
| "presetRank Balanced = 1"
| "presetRank MaxPreset = 2"

function chainLoop :: "preset list \<Rightarrow> preset \<Rightarrow> preset list" where
  "chainLoop chain current =
     (case getFallbackPreset current of
        None \<Rightarrow> chain
      | Some fallback \<Rightarrow> chainLoop (chain @ [fallback]) fallback)"
  by pat_completeness auto
termination
proof (relation "measure (\<lambda>(chain, current). presetRank current)")
  show "wf (measure (\<lambda>(chain, current). presetRank current))"
    by simp
next
  fix chain current fallback
  assume "getFallbackPreset current = Some fallback"
  then show "((chain @ [fallback], fallback), (chain, current))
               \<in> measure (\<lambda>(chain, current). presetRank current)"
    by (cases current) auto
qed

definition getPresetFallbackChain :: "preset \<Rightarrow> preset list" where
  "getPresetFallbackChain p = chainLoop [p] p"

section \<open>Values shared by the modules (api/types.ts, in src/src/wasm/pdfcpu-adapter.ts)\<close>

text \<open>
  JavaScript numbers are modelled exactly: byte lengths, page counts and chunk counts are
  natural numbers, progress percentages are rationals. Rounding of IEEE doubles is not
  modelled. A division whose divisor may be zero goes through \<open>jsDiv\<close> below, which
  keeps JavaScript's \<^verbatim>\<open>Infinity\<close> and \<^verbatim>\<open>NaN\<close>.
\<close>

datatype phase = Chunking | Compressing | Merging | ErrorRecovery

record progress_event =
  phase :: phase
  progress :: rat
  currentChunk :: "nat option"
  totalChunks :: "nat option"
  estimatedTimeRemaining :: "int option"
  message :: "string option"

definition mkEvent :: "phase \<Rightarrow> rat \<Rightarrow> progress_event" where
  "mkEvent ph pr = \<lparr>phase = ph, progress = pr, currentChunk = None, totalChunks = None,
                     estimatedTimeRemaining = None, message = None\<rparr>"

text \<open>
  Thrown values. \<^verbatim>\<open>CompressionError(message, attemptedPreset, originalSize, phase?,
  underlyingError?)\<close> extends \<^verbatim>\<open>Error\<close>; \<^verbatim>\<open>TypeError\<close> and plain \<^verbatim>\<open>Error\<close> carry a
  message only.
\<close>

datatype js_error =
    Error string
  | TypeError string
  | CompressionError string preset nat "phase option" "js_error option"

fun errorMessageOf :: "js_error \<Rightarrow> string" where
  "errorMessageOf (Error m) = m"
| "errorMessageOf (TypeError m) = m"
| "errorMessageOf (CompressionError m _ _ _ _) = m"

fun isCompressionError :: "js_error \<Rightarrow> bool" where
  "isCompressionError (CompressionError _ _ _ _ _) = True"
| "isCompressionError _ = False"

text \<open>
  A promise either resolves, rejects, or never settles (a worker that posts no terminal
  message and has no timer racing it).
\<close>

datatype 'a promise = Resolved 'a | Rejected js_error | Pending

fun isRejected :: "'a promise \<Rightarrow> bool" where
  "isRejected (Rejected _) = True"
| "isRejected _ = False"

fun isResolved :: "'a promise \<Rightarrow> bool" where
  "isResolved (Resolved _) = True"
| "isResolved _ = False"

section \<open>Strings\<close>

text \<open>
  Messages are ASCII strings. \<^verbatim>\<open>toLowerCase\<close> maps \<open>A\<close>..\<open>Z\<close> to \<open>a\<close>..\<open>z\<close>;
  \<^verbatim>\<open>String.includes\<close> is substring search (\<open>includesStr\<close>).
\<close>

definition lowerChar :: "char \<Rightarrow> char" where
  "lowerChar c =
     (case map_of (zip ''ABCDEFGHIJKLMNOPQRSTUVWXYZ'' ''abcdefghijklmnopqrstuvwxyz'') c of
        None \<Rightarrow> c
      | Some d \<Rightarrow> d)"

definition toLowerCase :: "string \<Rightarrow> string" where
  "toLowerCase s = map lowerChar s"

fun startsWith :: "string \<Rightarrow> string \<Rightarrow> bool" where
  "startsWith _ [] = True"
| "startsWith [] (_ # _) = False"
| "startsWith (c # cs) (d # ds) = (c = d \<and> startsWith cs ds)"

fun includesStr :: "string \<Rightarrow> string \<Rightarrow> bool" where
  "includesStr [] needle = (needle = [])"
| "includesStr (c # cs) needle = (startsWith (c # cs) needle \<or> includesStr cs needle)"

text \<open>Decimal rendering of a number inside a template string.\<close>

definition digitChar :: "nat \<Rightarrow> char" where
  "digitChar d = ''0123456789'' ! d"

fun showNat :: "nat \<Rightarrow> string" where
  "showNat n = (if n < 10 then [digitChar n] else showNat (n div 10) @ [digitChar (n mod 10)])"

declare showNat.simps [simp del]

section \<open>Error classification (src/src/core/error-handler.ts)\<close>

datatype ErrorType =
  INVALID_PDF | OUT_OF_MEMORY | WASM_LOAD_FAILED | WORKER_ERROR | TIMEOUT | VALIDATION_FAILED
  | UNKNOWN

fun errorTypeName :: "ErrorType \<Rightarrow> string" where
  "errorTypeName INVALID_PDF = ''INVALID_PDF''"
| "errorTypeName OUT_OF_MEMORY = ''OUT_OF_MEMORY''"
| "errorTypeName WASM_LOAD_FAILED = ''WASM_LOAD_FAILED''"
| "errorTypeName WORKER_ERROR = ''WORKER_ERROR''"
| "errorTypeName TIMEOUT = ''TIMEOUT''"
| "errorTypeName VALIDATION_FAILED = ''VALIDATION_FAILED''"
| "errorTypeName UNKNOWN = ''UNKNOWN''"

definition classifyError :: "js_error \<Rightarrow> ErrorType" where
  "classifyError error =
     (let message = toLowerCase (errorMessageOf error) in
      if includesStr message ''invalid pdf'' \<or> includesStr message ''not a valid pdf'' then INVALID_PDF
      else if includesStr message ''out of memory'' \<or> includesStr message ''memory''
              \<or> includesStr message ''heap'' then OUT_OF_MEMORY
      else if includesStr message ''wasm'' \<or> includesStr message ''webassembly'' then WASM_LOAD_FAILED
      else if includesStr message ''worker'' then WORKER_ERROR
      else if includesStr message ''timeout'' \<or> includesStr message ''timed out'' then TIMEOUT
      else if includesStr message ''validation'' \<or> includesStr message ''corrupt'' then VALIDATION_FAILED
      else UNKNOWN)"

fun isRecoverableError :: "ErrorType \<Rightarrow> bool" where
  "isRecoverableError OUT_OF_MEMORY = True"
| "isRecoverableError TIMEOUT = True"
| "isRecoverableError WORKER_ERROR = True"
| "isRecoverableError UNKNOWN = True"
| "isRecoverableError INVALID_PDF = False"
| "isRecoverableError WASM_LOAD_FAILED = False"
| "isRecoverableError VALIDATION_FAILED = False"

fun getUserFriendlyErrorMessage :: "ErrorType \<Rightarrow> preset \<Rightarrow> string" where
  "getUserFriendlyErrorMessage INVALID_PDF p =
     ''The provided file is not a valid PDF or is corrupted.''"
| "getUserFriendlyErrorMessage OUT_OF_MEMORY p =
     ''Compression with '' @ presetName p
       @ '' preset exceeded available memory. Try using a lighter preset or smaller chunk size.''"
| "getUserFriendlyErrorMessage WASM_LOAD_FAILED p =
     ''Failed to load the compression engine. Please check your internet connection and try again.''"
| "getUserFriendlyErrorMessage WORKER_ERROR p =
     ''Worker failed during '' @ presetName p
       @ '' compression. This may be due to browser limitations.''"
| "getUserFriendlyErrorMessage TIMEOUT p =
     ''Compression with '' @ presetName p
       @ '' preset timed out. Try using a lighter preset or smaller chunk size.''"
| "getUserFriendlyErrorMessage VALIDATION_FAILED p =
     ''The compressed PDF failed validation. The file may be corrupted.''"
| "getUserFriendlyErrorMessage UNKNOWN p =
     ''An unexpected error occurred during compression.''"

record fallback_result =
  shouldRetry :: bool
  nextPreset :: "preset option"
  errorMessage :: "string option"

text \<open>
  \<^verbatim>\<open>handleErrorWithGracefulDegradation(error, currentPreset, gracefulDegradation,
  onProgress?)\<close>. The callback is a sink: the model returns the events handed to it
  (none when no callback was supplied, \<open>hasOnProgress = False\<close>) beside the result.
\<close>

definition handleErrorWithGracefulDegradation ::
  "js_error \<Rightarrow> preset \<Rightarrow> bool \<Rightarrow> bool \<Rightarrow> progress_event list \<times> fallback_result" where
  "handleErrorWithGracefulDegradation error currentPreset gracefulDegradation hasOnProgress =
     (let errorType = classifyError error;
          isRecoverable = isRecoverableError errorType in
      if \<not> isRecoverable \<or> \<not> gracefulDegradation then
        ([], \<lparr>shouldRetry = False, nextPreset = None,
               errorMessage = Some (getUserFriendlyErrorMessage errorType currentPreset)\<rparr>)
      else
        (case getFallbackPreset currentPreset of
           None \<Rightarrow>
             ([], \<lparr>shouldRetry = False, nextPreset = None,
                    errorMessage = Some (''All compression presets failed. ''
                       @ getUserFriendlyErrorMessage errorType currentPreset)\<rparr>)
         | Some fallbackPreset \<Rightarrow>
             (if hasOnProgress then
                [(mkEvent ErrorRecovery 0)\<lparr>message := Some (presetName currentPreset
                    @ '' compression failed ('' @ errorTypeName errorType @ ''). Trying ''
                    @ presetName fallbackPreset @ '' preset...'')\<rparr>]
              else [],
              \<lparr>shouldRetry = True, nextPreset = Some fallbackPreset, errorMessage = None\<rparr>)))"

definition createCompressionError :: "js_error \<Rightarrow> preset \<Rightarrow> nat \<Rightarrow> phase option \<Rightarrow> js_error" where
  "createCompressionError error p originalSize ph =
     CompressionError (getUserFriendlyErrorMessage (classifyError error) p) p originalSize ph
       (Some error)"

section \<open>Progress tracker (core/progress.ts, in src/src/core/error-handler.ts)\<close>

text \<open>
  The fields of \<^verbatim>\<open>class ProgressTracker\<close>. \<open>trkOnProgress\<close> says whether a callback was
  supplied; \<open>trkEmitted\<close> is what that callback has received so far, oldest first.
  \<^verbatim>\<open>startTime\<close> (wall-clock) is left out.
\<close>

record tracker =
  trkTotalChunks :: nat
  trkCompletedChunks :: nat
  trkCurrentPhase :: phase
  trkChunkTimes :: "nat list"
  trkOnProgress :: bool
  trkEmitted :: "progress_event list"

definition newTracker :: "bool \<Rightarrow> tracker" where
  "newTracker hasOnProgress =
     \<lparr>trkTotalChunks = 0, trkCompletedChunks = 0, trkCurrentPhase = Chunking,
      trkChunkTimes = [], trkOnProgress = hasOnProgress, trkEmitted = []\<rparr>"

definition emit :: "progress_event \<Rightarrow> tracker \<Rightarrow> tracker" where
  "emit event t = (if trkOnProgress t then t\<lparr>trkEmitted := trkEmitted t @ [event]\<rparr> else t)"

definition calculateProgress :: "tracker \<Rightarrow> rat" where
  "calculateProgress t =
     (if trkTotalChunks t = 0 then 0
      else case trkCurrentPhase t of
             Chunking \<Rightarrow> 5
           | Compressing \<Rightarrow>
               (let compressionProgress = of_nat (trkCompletedChunks t) / of_nat (trkTotalChunks t)
                in 10 + compressionProgress * 80)
           | Merging \<Rightarrow> 95
           | ErrorRecovery \<Rightarrow> of_nat (trkCompletedChunks t) / of_nat (trkTotalChunks t) * 90)"

definition estimateTimeRemaining :: "tracker \<Rightarrow> int option" where
  "estimateTimeRemaining t =
     (if length (trkChunkTimes t) = 0 \<or> trkCompletedChunks t \<ge> trkTotalChunks t then None
      else
        let avgChunkTime = (of_nat (foldl (+) 0 (trkChunkTimes t)) :: rat)
                             / of_nat (length (trkChunkTimes t));
            remainingChunks = trkTotalChunks t - trkCompletedChunks t
        in Some \<lceil>avgChunkTime * of_nat remainingChunks\<rceil>)"

definition emitProgress :: "tracker \<Rightarrow> tracker" where
  "emitProgress t =
     emit \<lparr>phase = trkCurrentPhase t, progress = calculateProgress t,
           currentChunk = Some (trkCompletedChunks t + 1),
           totalChunks = Some (trkTotalChunks t),
           estimatedTimeRemaining = estimateTimeRemaining t, message = None\<rparr> t"

definition setTotalChunks :: "nat \<Rightarrow> tracker \<Rightarrow> tracker" where
  "setTotalChunks n t = t\<lparr>trkTotalChunks := n\<rparr>"

definition setPhase :: "phase \<Rightarrow> tracker \<Rightarrow> tracker" where
  "setPhase ph t = emitProgress (t\<lparr>trkCurrentPhase := ph\<rparr>)"

definition reportChunkingProgress :: "rat \<Rightarrow> tracker \<Rightarrow> tracker" where
  "reportChunkingProgress pr t = emit (mkEvent Chunking pr) (t\<lparr>trkCurrentPhase := Chunking\<rparr>)"

definition startChunk :: "nat \<Rightarrow> tracker \<Rightarrow> tracker" where
  "startChunk chunkIndex t =
     (let t1 = t\<lparr>trkCurrentPhase := Compressing\<rparr> in
      emit ((mkEvent Compressing (calculateProgress t1))
              \<lparr>currentChunk := Some (chunkIndex + 1),
               totalChunks := Some (trkTotalChunks t1)\<rparr>) t1)"

definition completeChunk :: "nat \<Rightarrow> nat \<Rightarrow> tracker \<Rightarrow> tracker" where
  "completeChunk chunkIndex processingTime t =
     (let t1 = t\<lparr>trkCompletedChunks := trkCompletedChunks t + 1,
                  trkChunkTimes := trkChunkTimes t @ [processingTime]\<rparr> in
      emit ((mkEvent Compressing (calculateProgress t1))
              \<lparr>currentChunk := Some (chunkIndex + 1),
               totalChunks := Some (trkTotalChunks t1),
               estimatedTimeRemaining := estimateTimeRemaining t1\<rparr>) t1)"

definition reportMergingProgress :: "rat \<Rightarrow> tracker \<Rightarrow> tracker" where
  "reportMergingProgress pr t =
     emit (mkEvent Merging (min 95 (90 + pr * (1 / 10)))) (t\<lparr>trkCurrentPhase := Merging\<rparr>)"

definition reportComplete :: "tracker \<Rightarrow> tracker" where
  "reportComplete t = emit (mkEvent Merging 100) t"

definition reportErrorRecovery :: "string \<Rightarrow> tracker \<Rightarrow> tracker" where
  "reportErrorRecovery msg t =
     emit ((mkEvent ErrorRecovery (calculateProgress t))\<lparr>message := Some msg\<rparr>) t"

section \<open>PDF utilities (src/src/utils/pdf-utils.ts) and the external services\<close>

type_synonym bytes = "8 word list"

text \<open>
  An \<^verbatim>\<open>ArrayBuffer\<close> object as the main thread sees it. Posting it in a transfer list
  detaches it ("neutered in main thread", as the orchestrator's own comment says); a
  detached buffer has \<^verbatim>\<open>byteLength\<close> 0.
\<close>

datatype array_buffer = ArrayBuffer bytes | Detached

fun byteLength :: "array_buffer \<Rightarrow> nat" where
  "byteLength (ArrayBuffer bs) = length bs"
| "byteLength Detached = 0"

text \<open>Finite numbers, and the results of dividing by zero.\<close>

datatype jsnum = Finite rat | PosInfinity | NegInfinity | NaN

text \<open>\<open>a / b\<close> for finite \<open>a\<close> and a finite divisor that is never negative zero.\<close>

definition jsDiv :: "rat \<Rightarrow> rat \<Rightarrow> jsnum" where
  "jsDiv a b =
     (if b \<noteq> 0 then Finite (a / b)
      else if a > 0 then PosInfinity else if a < 0 then NegInfinity else NaN)"

text \<open>\<open>x * c\<close> for a finite \<open>c > 0\<close>.\<close>

fun jsTimesPos :: "jsnum \<Rightarrow> rat \<Rightarrow> jsnum" where
  "jsTimesPos (Finite a) c = Finite (a * c)"
| "jsTimesPos PosInfinity c = PosInfinity"
| "jsTimesPos NegInfinity c = NegInfinity"
| "jsTimesPos NaN c = NaN"

text \<open>\<open>x > c\<close> for a finite \<open>c\<close>; false for \<^verbatim>\<open>NaN\<close>.\<close>

fun jsGreater :: "jsnum \<Rightarrow> rat \<Rightarrow> bool" where
  "jsGreater (Finite a) c = (a > c)"
| "jsGreater PosInfinity c = True"
| "jsGreater NegInfinity c = False"
| "jsGreater NaN c = False"

type_synonym metadata = "(string \<times> string) list"

datatype merge_strategy = WorkerStrategy | MainStrategy

text \<open>
  \<^verbatim>\<open>CompressionOptions\<close>. The type parameter is the type of \<^verbatim>\<open>preset\<close>: an optional
  string in the caller's \<^verbatim>\<open>Partial<CompressionOptions>\<close>, a \<^typ>\<open>preset\<close> once validated.
  \<open>onProgress\<close> says whether a callback was supplied: a callback only receives events, and
  the model records them in order.
\<close>

record 'p options =
  preset :: 'p
  chunkSize :: "nat option"
  onProgress :: bool
  wasmUrl :: "string option"
  gracefulDegradation :: "bool option"
  preserveMetadata :: "bool option"
  targetDPI :: "nat option"
  jpegQuality :: "rat option"
  enableRasterization :: "bool option"
  mergeStrategy :: "merge_strategy option"
  timeout :: "nat option"

text \<open>The messages to and from the workers (\<^verbatim>\<open>CompressChunkMessage\<close> and the replies).\<close>

record chunk_message =
  msgChunkIndex :: nat
  msgPdfData :: bytes
  msgPreset :: preset
  msgTargetDPI :: "nat option"
  msgJpegQuality :: "rat option"
  msgPreserveMetadata :: "bool option"
  msgEnableRasterization :: "bool option"

text \<open>
  What the compression worker does first, as \<^verbatim>\<open>compressChunk\<close> sees it: a
  \<^verbatim>\<open>chunk-complete\<close> message (compressed bytes and \<^verbatim>\<open>stats.processingTime\<close>), an
  \<^verbatim>\<open>error\<close> message, an \<^verbatim>\<open>onerror\<close> event, or none of these before the timer fires.
\<close>

datatype chunk_reply =
    ChunkComplete bytes nat
  | ChunkErrorMessage string
  | ChunkOnError string
  | ChunkNoReply

text \<open>
  The merge worker: the \<^verbatim>\<open>progress\<close> values it posts before its terminal event, and
  that event. No timer races it.
\<close>

datatype merge_reply =
    MergeComplete bytes
  | MergeErrorMessage string
  | MergeOnError string
  | MergeNoReply

datatype wasm_outcome = WasmLoaded | WasmFailed string | WasmNeverReady

text \<open>
  The collaborators outside the orchestrator: the PDF library (load and page count; copy a
  list of pages into a new document and save; read metadata; merge documents), the two
  workers, the engine loader and the user agent test. A library call that throws is
  \<open>Inl\<close> of the message the \<^verbatim>\<open>catch\<close> block reads
  (\<^verbatim>\<open>error instanceof Error ? error.message : 'Unknown error'\<close>).
\<close>

record env =
  isMobile :: bool
  wasmOutcome :: "string option \<Rightarrow> wasm_outcome"
  pdfPageCount :: "bytes \<Rightarrow> string + nat"
  pdfCopyPages :: "bytes \<Rightarrow> nat list \<Rightarrow> string + bytes"
  pdfMetadata :: "bytes \<Rightarrow> metadata"
  pdfMerge :: "bytes list \<Rightarrow> metadata option \<Rightarrow> string + bytes"
  chunkWorker :: "chunk_message \<Rightarrow> chunk_reply"
  mergeWorker :: "bytes list \<Rightarrow> metadata option \<Rightarrow> rat list \<times> merge_reply"

definition PDF_MAGIC_BYTES :: bytes where
  "PDF_MAGIC_BYTES = [0x25, 0x50, 0x44, 0x46]"

definition isValidPDF :: "bytes \<Rightarrow> bool" where
  "isValidPDF buffer =
     (if length buffer < 4 then False
      else list_all (\<lambda>(byte, index). buffer ! index = byte) (zip PDF_MAGIC_BYTES [0..<4]))"

definition countPages :: "env \<Rightarrow> bytes \<Rightarrow> nat promise" where
  "countPages e buffer =
     (case pdfPageCount e buffer of
        Inl m \<Rightarrow> Rejected (Error (''Failed to count pages: '' @ m))
      | Inr n \<Rightarrow> Resolved n)"

definition extractPages :: "env \<Rightarrow> bytes \<Rightarrow> nat \<Rightarrow> nat \<Rightarrow> bytes promise" where
  "extractPages e buffer startPage endPage =
     (let failed = (\<lambda>m. Rejected (Error (''Failed to extract pages '' @ showNat startPage
                                           @ ''-'' @ showNat endPage @ '': '' @ m))) in
      case pdfPageCount e buffer of
        Inl m \<Rightarrow> failed m
      | Inr pageCount \<Rightarrow>
          (let actualEndPage = min endPage pageCount;
               pageIndices = map (\<lambda>i. startPage + i) [0..<actualEndPage - startPage] in
           case pdfCopyPages e buffer pageIndices of
             Inl m \<Rightarrow> failed m
           | Inr pdfBytes \<Rightarrow> Resolved pdfBytes))"

definition mergePDFs :: "env \<Rightarrow> bytes list \<Rightarrow> metadata option \<Rightarrow> bytes promise" where
  "mergePDFs e chunks md =
     (case pdfMerge e chunks md of
        Inl m \<Rightarrow> Rejected (Error (''Failed to merge PDFs: '' @ m))
      | Inr pdfBytes \<Rightarrow> Resolved pdfBytes)"

definition extractMetadata :: "env \<Rightarrow> bytes \<Rightarrow> metadata" where
  "extractMetadata e buffer = pdfMetadata e buffer"

definition calculateChunkSize :: "env \<Rightarrow> nat \<Rightarrow> nat \<Rightarrow> nat \<Rightarrow> nat" where
  "calculateChunkSize e totalPages fileSizeBytes defaultChunkSize =
     (let avgPageSize = jsDiv (of_nat fileSizeBytes) (of_nat totalPages) in
      if jsGreater avgPageSize (5 * 1024 * 1024) \<or> isMobile e then min 5 defaultChunkSize
      else if totalPages > 500 then min 5 defaultChunkSize
      else defaultChunkSize)"

text \<open>
  \<^verbatim>\<open>PresetConfig\<close> without its two descriptive strings. Every field is optional here
  because \<^verbatim>\<open>{...baseConfig, ...overrides}\<close> copies a key of \<^verbatim>\<open>overrides\<close> whose value is
  \<^verbatim>\<open>undefined\<close> over the base value. In an override, \<open>None\<close> is an absent key and
  \<open>Some v\<close> a present key with value \<open>v\<close>.
\<close>

record preset_config =
  cfgPreset :: preset
  cfgTargetDPI :: "nat option"
  cfgJpegQuality :: "rat option"
  cfgPreserveMetadata :: "bool option"
  cfgEnableRasterization :: "bool option"

record config_overrides =
  ovTargetDPI :: "nat option option"
  ovJpegQuality :: "rat option option"
  ovPreserveMetadata :: "bool option option"
  ovEnableRasterization :: "bool option option"

fun getPresetConfig :: "preset \<Rightarrow> preset_config" where
  "getPresetConfig Lossless =
     \<lparr>cfgPreset = Lossless, cfgTargetDPI = None, cfgJpegQuality = None,
      cfgPreserveMetadata = Some True, cfgEnableRasterization = Some False\<rparr>"
| "getPresetConfig Balanced =
     \<lparr>cfgPreset = Balanced, cfgTargetDPI = Some 150, cfgJpegQuality = Some (65 / 100),
      cfgPreserveMetadata = Some True, cfgEnableRasterization = Some False\<rparr>"
| "getPresetConfig MaxPreset =
     \<lparr>cfgPreset = MaxPreset, cfgTargetDPI = Some 120, cfgJpegQuality = Some (4 / 10),
      cfgPreserveMetadata = Some False, cfgEnableRasterization = Some False\<rparr>"

definition spreadField :: "'a option \<Rightarrow> 'a option option \<Rightarrow> 'a option" where
  "spreadField base ov = (case ov of None \<Rightarrow> base | Some v \<Rightarrow> v)"

definition getPresetConfigWithOverrides :: "preset \<Rightarrow> config_overrides \<Rightarrow> preset_config" where
  "getPresetConfigWithOverrides p overrides =
     (let baseConfig = getPresetConfig p in
      \<lparr>cfgPreset = cfgPreset baseConfig,
       cfgTargetDPI = spreadField (cfgTargetDPI baseConfig) (ovTargetDPI overrides),
       cfgJpegQuality = spreadField (cfgJpegQuality baseConfig) (ovJpegQuality overrides),
       cfgPreserveMetadata =
         spreadField (cfgPreserveMetadata baseConfig) (ovPreserveMetadata overrides),
       cfgEnableRasterization =
         spreadField (cfgEnableRasterization baseConfig) (ovEnableRasterization overrides)\<rparr>)"

section \<open>The orchestrator (core/orchestrator.ts, in src/unnamed/part_001)\<close>

record pass_stats =
  originalSize :: nat
  compressedSize :: nat
  ratio :: jsnum
  bytesSaved :: int
  percentageSaved :: jsnum
  chunksProcessed :: nat

text \<open>\<^verbatim>\<open>CompressionStats\<close>; \<^verbatim>\<open>processingTime\<close> (wall-clock) is left out.\<close>

record compression_stats = pass_stats +
  presetUsed :: preset

record 's pass_result =
  pdf :: bytes
  stats :: 's

record compression_result = "compression_stats pass_result" +
  warning :: "string option"

text \<open>
  \<^verbatim>\<open>compressChunk(chunkPdf, options, chunkIndex)\<close>, called on the buffer that
  \<^verbatim>\<open>extractPages\<close> has just returned. The first component of the result is that buffer
  object afterwards: \<^verbatim>\<open>worker.postMessage(message, [chunkPdf])\<close> runs inside the promise
  executor and transfers it, whatever the worker answers later. The promise settles on the
  worker's first terminal event, or on the timer.
\<close>

definition compressChunk ::
  "env \<Rightarrow> bytes \<Rightarrow> preset options \<Rightarrow> nat \<Rightarrow> array_buffer \<times> bytes promise" where
  "compressChunk e chunkPdf opts chunkIndex =
     (let msg = \<lparr>msgChunkIndex = chunkIndex, msgPdfData = chunkPdf, msgPreset = preset opts,
                  msgTargetDPI = targetDPI opts, msgJpegQuality = jpegQuality opts,
                  msgPreserveMetadata = preserveMetadata opts,
                  msgEnableRasterization = enableRasterization opts\<rparr>;
          timeout' = (case timeout opts of None \<Rightarrow> 300000
                      | Some ms \<Rightarrow> if ms = 0 then 300000 else ms) in
      (Detached,
       case chunkWorker e msg of
         ChunkComplete compressedPdf _ \<Rightarrow> Resolved compressedPdf
       | ChunkErrorMessage m \<Rightarrow> Rejected (Error m)
       | ChunkOnError m \<Rightarrow> Rejected (Error (''Worker error: '' @ m))
       | ChunkNoReply \<Rightarrow>
           Rejected (Error (''Chunk '' @ showNat chunkIndex @ '' compression timed out after ''
                              @ showNat timeout' @ ''ms''))))"

text \<open>
  \<^verbatim>\<open>mergeChunks(chunks, metadata, options, progress)\<close>. With the worker, every
  \<^verbatim>\<open>progress\<close> message that precedes the terminal event goes to
  \<^verbatim>\<open>reportMergingProgress\<close>; without a terminal event the promise never settles.
\<close>

definition mergeChunks ::
  "env \<Rightarrow> bytes list \<Rightarrow> metadata option \<Rightarrow> preset options \<Rightarrow> tracker
     \<Rightarrow> tracker \<times> bytes promise" where
  "mergeChunks e chunks md opts trk =
     (if mergeStrategy opts = Some MainStrategy \<or> length chunks = 1 then
        (if length chunks = 1 then (trk, Resolved (chunks ! 0))
         else (trk, mergePDFs e chunks md))
      else
        (let (progressValues, reply) = mergeWorker e chunks md;
             trk1 = foldl (\<lambda>t pr. reportMergingProgress pr t) trk progressValues in
         (trk1,
          case reply of
            MergeComplete mergedPdf \<Rightarrow> Resolved mergedPdf
          | MergeErrorMessage m \<Rightarrow> Rejected (Error m)
          | MergeOnError m \<Rightarrow> Rejected (Error (''Merge worker error: '' @ m))
          | MergeNoReply \<Rightarrow> Pending)))"

text \<open>The page range of chunk \<open>i\<close>: \<^verbatim>\<open>startPage\<close> and \<^verbatim>\<open>endPage\<close> of the loop body.\<close>

definition chunkRange :: "nat \<Rightarrow> nat \<Rightarrow> nat \<Rightarrow> nat \<times> nat" where
  "chunkRange chunkSize' totalPages i = (i * chunkSize', min ((i + 1) * chunkSize') totalPages)"

text \<open>\<^verbatim>\<open>Math.ceil(totalPages / chunkSize)\<close>.\<close>

definition numChunksOf :: "nat \<Rightarrow> nat \<Rightarrow> nat" where
  "numChunksOf totalPages chunkSize' = nat \<lceil>(of_nat totalPages :: rat) / of_nat chunkSize'\<rceil>"

text \<open>\<^verbatim>\<open>options.chunkSize || calculateChunkSize(totalPages, pdfBuffer.byteLength)\<close>.\<close>

definition effectiveChunkSize :: "env \<Rightarrow> preset options \<Rightarrow> nat \<Rightarrow> nat \<Rightarrow> nat" where
  "effectiveChunkSize e opts totalPages fileSizeBytes =
     (case chunkSize opts of
        None \<Rightarrow> calculateChunkSize e totalPages fileSizeBytes 10
      | Some c \<Rightarrow> if c = 0 then calculateChunkSize e totalPages fileSizeBytes 10 else c)"

text \<open>
  The loop \<^verbatim>\<open>for (let i = 0; i < numChunks; i++)\<close> of \<^verbatim>\<open>compressWithPreset\<close>, with the
  tracker, \<^verbatim>\<open>compressedChunks\<close> and \<^verbatim>\<open>chunkStats\<close> as its state. A rejection leaves the
  loop with the tracker as it was then. \<^verbatim>\<open>chunkStats.push\<close> reads
  \<^verbatim>\<open>chunkPdf.byteLength\<close> after \<^verbatim>\<open>compressChunk\<close> has returned.
\<close>

function chunkLoop ::
  "env \<Rightarrow> bytes \<Rightarrow> preset options \<Rightarrow> nat \<Rightarrow> nat \<Rightarrow> nat \<Rightarrow> nat \<Rightarrow> tracker \<Rightarrow> bytes list
     \<Rightarrow> (nat \<times> nat) list \<Rightarrow> tracker \<times> (bytes list \<times> (nat \<times> nat) list) promise" where
  "chunkLoop e pdfBuffer opts chunkSize' totalPages numChunks i trk compressedChunks chunkStats =
     (if i < numChunks then
        (case extractPages e pdfBuffer (fst (chunkRange chunkSize' totalPages i))
                (snd (chunkRange chunkSize' totalPages i)) of
           Rejected err \<Rightarrow> (trk, Rejected err)
         | Pending \<Rightarrow> (trk, Pending)
         | Resolved chunkPdf \<Rightarrow>
             (case snd (compressChunk e chunkPdf opts i) of
                Rejected err \<Rightarrow> (startChunk i trk, Rejected err)
              | Pending \<Rightarrow> (startChunk i trk, Pending)
              | Resolved compressed \<Rightarrow>
                  chunkLoop e pdfBuffer opts chunkSize' totalPages numChunks (i + 1)
                    (completeChunk i (length compressed) (startChunk i trk))
                    (compressedChunks @ [compressed])
                    (chunkStats @ [(byteLength (fst (compressChunk e chunkPdf opts i)),
                                    length compressed)])))
      else (trk, Resolved (compressedChunks, chunkStats)))"
  by pat_completeness auto
termination
  by (relation "measure (\<lambda>(e, pdfBuffer, opts, chunkSize', totalPages, numChunks, i, rest).
                           numChunks - i)") auto

declare chunkLoop.simps [simp del]

definition compressWithPreset ::
  "env \<Rightarrow> bytes \<Rightarrow> preset options \<Rightarrow> progress_event list \<times> pass_stats pass_result promise" where
  "compressWithPreset e pdfBuffer opts =
     (let trk1 = setPhase Chunking (newTracker (onProgress opts)) in
      case countPages e pdfBuffer of
        Rejected err \<Rightarrow> (trkEmitted trk1, Rejected err)
      | Pending \<Rightarrow> (trkEmitted trk1, Pending)
      | Resolved totalPages \<Rightarrow>
          (let chunkSize' = effectiveChunkSize e opts totalPages (length pdfBuffer);
               numChunks = numChunksOf totalPages chunkSize';
               trk2 = reportChunkingProgress 50 (setTotalChunks numChunks trk1);
               presetConfig = getPresetConfigWithOverrides (preset opts)
                 \<lparr>ovTargetDPI = Some (targetDPI opts), ovJpegQuality = Some (jpegQuality opts),
                  ovPreserveMetadata = Some (preserveMetadata opts),
                  ovEnableRasterization = Some (enableRasterization opts)\<rparr>;
               md = (if cfgPreserveMetadata presetConfig = Some True
                     then Some (extractMetadata e pdfBuffer) else None);
               trk3 = reportChunkingProgress 100 trk2 in
           case chunkLoop e pdfBuffer opts chunkSize' totalPages numChunks 0 trk3 [] [] of
             (trk4, Rejected err) \<Rightarrow> (trkEmitted trk4, Rejected err)
           | (trk4, Pending) \<Rightarrow> (trkEmitted trk4, Pending)
           | (trk4, Resolved (compressedChunks, chunkStats)) \<Rightarrow>
               (case mergeChunks e compressedChunks md opts (setPhase Merging trk4) of
                  (trk5, Rejected err) \<Rightarrow> (trkEmitted trk5, Rejected err)
                | (trk5, Pending) \<Rightarrow> (trkEmitted trk5, Pending)
                | (trk5, Resolved mergedPdf) \<Rightarrow>
                    (let totalOriginalSize = foldl (\<lambda>sum s. sum + fst s) 0 chunkStats;
                         totalCompressedSize = length mergedPdf;
                         ratio' = jsDiv (of_nat totalCompressedSize) (of_nat totalOriginalSize);
                         bytesSaved' = int totalOriginalSize - int totalCompressedSize;
                         percentageSaved' =
                           jsTimesPos (jsDiv (of_int bytesSaved') (of_nat totalOriginalSize)) 100
                     in (trkEmitted (reportComplete trk5),
                         Resolved \<lparr>pdf = mergedPdf,
                                   stats = \<lparr>originalSize = totalOriginalSize,
                                            compressedSize = totalCompressedSize,
                                            ratio = ratio', bytesSaved = bytesSaved',
                                            percentageSaved = percentageSaved',
                                            chunksProcessed = numChunks\<rparr>\<rparr>)))))"

text \<open>
  What a caller can observe of a call besides its outcome, in order: the events its
  \<^verbatim>\<open>onProgress\<close> callback receives, the call of \<^verbatim>\<open>loadWASM\<close>, and each pass
  (\<^verbatim>\<open>compressWithPreset\<close>) that is started, with its preset.
\<close>

datatype effect = Progress progress_event | LoadWASM | RunPass preset

fun attemptedPresets :: "effect list \<Rightarrow> preset list" where
  "attemptedPresets [] = []"
| "attemptedPresets (RunPass p # tr) = p # attemptedPresets tr"
| "attemptedPresets (_ # tr) = attemptedPresets tr"

definition sq :: string where
  "sq = [CHR 0x27]"

text \<open>
  How \<^verbatim>\<open>for (const preset of presetChain)\<close> is left: by \<^verbatim>\<open>return\<close>, by running out of
  presets or \<^verbatim>\<open>break\<close> (with \<^verbatim>\<open>lastError\<close>), or never, when a pass never settles.
\<close>

datatype loop_exit = Returned compression_result | LoopDone "js_error option" | NeverSettled

text \<open>
  The loop over the rest of \<open>presetChain\<close>. \<^verbatim>\<open>error instanceof Error\<close> holds for
  every value a pass throws, so \<^verbatim>\<open>lastError\<close> is the thrown error itself.
\<close>

fun presetLoop ::
  "env \<Rightarrow> bytes \<Rightarrow> preset options \<Rightarrow> preset list \<Rightarrow> preset list \<Rightarrow> js_error option
     \<Rightarrow> effect list \<times> loop_exit" where
  "presetLoop e pdfBuffer opts presetChain [] lastError = ([], LoopDone lastError)"
| "presetLoop e pdfBuffer opts presetChain (p # rest) lastError =
     (let pass = compressWithPreset e pdfBuffer (opts\<lparr>preset := p\<rparr>);
          tr = RunPass p # map Progress (fst pass) in
      case snd pass of
        Resolved result \<Rightarrow>
          (tr, Returned
             \<lparr>pdf = pdf result,
              stats = \<lparr>originalSize = originalSize (stats result),
                       compressedSize = compressedSize (stats result),
                       ratio = ratio (stats result),
                       bytesSaved = bytesSaved (stats result),
                       percentageSaved = percentageSaved (stats result),
                       chunksProcessed = chunksProcessed (stats result),
                       presetUsed = p\<rparr>,
              warning = (if p \<noteq> preset opts
                         then Some (''Original preset '' @ sq @ presetName (preset opts) @ sq
                                    @ '' failed, used '' @ sq @ presetName p @ sq @ '' instead.'')
                         else None)\<rparr>)
      | Pending \<Rightarrow> (tr, NeverSettled)
      | Rejected error \<Rightarrow>
          (if p = presetChain ! (length presetChain - 1) then (tr, LoopDone (Some error))
           else if onProgress opts then
             (let fallback = handleErrorWithGracefulDegradation error p True True;
                  tr2 = tr @ map Progress (fst fallback) in
              if \<not> shouldRetry (snd fallback) then (tr2, LoopDone (Some error))
              else (let next = presetLoop e pdfBuffer opts presetChain rest (Some error)
                    in (tr2 @ fst next, snd next)))
           else (let next = presetLoop e pdfBuffer opts presetChain rest (Some error)
                 in (tr @ fst next, snd next))))"

text \<open>
  \<^verbatim>\<open>orchestrateCompression(pdfBuffer, options)\<close>. \<^verbatim>\<open>pdfBuffer\<close> is never put in a
  transfer list, so it stays attached, and \<^verbatim>\<open>pdfBuffer.slice(0)\<close> is a copy holding the
  same bytes. \<^verbatim>\<open>startTime\<close> and \<^verbatim>\<open>processingTime\<close> (wall-clock) are left out.
\<close>

definition orchestrateCompression ::
  "env \<Rightarrow> bytes \<Rightarrow> preset options \<Rightarrow> effect list \<times> compression_result promise" where
  "orchestrateCompression e pdfBuffer opts =
     (let originalSize' = length pdfBuffer in
      if \<not> isValidPDF pdfBuffer then
        ([], Rejected (CompressionError ''Invalid PDF file'' (preset opts) originalSize' None None))
      else
        (let presetChain = (if gracefulDegradation opts \<noteq> Some False
                            then getPresetFallbackChain (preset opts) else [preset opts]);
             loop = presetLoop e pdfBuffer opts presetChain presetChain None in
         case snd loop of
           Returned result \<Rightarrow> (fst loop, Resolved result)
         | NeverSettled \<Rightarrow> (fst loop, Pending)
         | LoopDone lastError \<Rightarrow>
             (if gracefulDegradation opts \<noteq> Some False then
                (fst loop @
                   (if onProgress opts
                    then [Progress ((mkEvent ErrorRecovery 100)\<lparr>message :=
                            Some ''All compression attempts failed. Returning original PDF.''\<rparr>)]
                    else []),
                 Resolved
                   \<lparr>pdf = pdfBuffer,
                    stats = \<lparr>originalSize = originalSize', compressedSize = originalSize',
                             ratio = Finite 1, bytesSaved = 0, percentageSaved = Finite 0,
                             chunksProcessed = 0, presetUsed = preset opts\<rparr>,
                    warning = Some ''Compression failed. Returning original PDF.''\<rparr>)
              else
                (fst loop,
                 Rejected (case lastError of
                             Some err \<Rightarrow> err
                           | None \<Rightarrow> CompressionError ''Compression failed'' (preset opts)
                                       originalSize' None None)))))"

section \<open>The public call (src/src/api/compress.ts)\<close>

text \<open>The first argument of \<^verbatim>\<open>compress\<close> at run time: an \<^verbatim>\<open>ArrayBuffer\<close> or something else.\<close>

datatype js_value = Buffer array_buffer | NotABuffer

definition parsePreset :: "string \<Rightarrow> preset option" where
  "parsePreset s =
     (if s = ''lossless'' then Some Lossless
      else if s = ''balanced'' then Some Balanced
      else if s = ''max'' then Some MaxPreset
      else None)"

text \<open>\<^verbatim>\<open>loadWASM(wasmUrl)\<close>: every failure is rethrown as \<^verbatim>\<open>Error('Failed to load WASM: ...')\<close>.\<close>

definition loadWASM :: "env \<Rightarrow> string option \<Rightarrow> unit promise" where
  "loadWASM e url =
     (case wasmOutcome e url of
        WasmLoaded \<Rightarrow> Resolved ()
      | WasmFailed m \<Rightarrow> Rejected (Error (''Failed to load WASM: '' @ m))
      | WasmNeverReady \<Rightarrow> Pending)"

text \<open>The "Set defaults" block of \<^verbatim>\<open>compress\<close>, for a preset name already parsed.\<close>

definition withDefaults :: "preset \<Rightarrow> (string option) options \<Rightarrow> preset options" where
  "withDefaults p opts =
     \<lparr>preset = p, chunkSize = chunkSize opts, onProgress = onProgress opts,
      wasmUrl = wasmUrl opts,
      gracefulDegradation = Some (gracefulDegradation opts \<noteq> Some False),
      preserveMetadata = preserveMetadata opts, targetDPI = targetDPI opts,
      jpegQuality = jpegQuality opts, enableRasterization = enableRasterization opts,
      mergeStrategy = Some (case mergeStrategy opts of None \<Rightarrow> WorkerStrategy | Some m \<Rightarrow> m),
      timeout = Some (case timeout opts of None \<Rightarrow> 300000
                      | Some ms \<Rightarrow> if ms = 0 then 300000 else ms)\<rparr>"

text \<open>\<^verbatim>\<open>options.preset || 'balanced'\<close>.\<close>

definition presetOrDefault :: "(string option) options \<Rightarrow> string" where
  "presetOrDefault opts =
     (case preset opts of None \<Rightarrow> ''balanced'' | Some s \<Rightarrow> if s = [] then ''balanced'' else s)"

definition compress ::
  "env \<Rightarrow> js_value \<Rightarrow> (string option) options \<Rightarrow> effect list \<times> compression_result promise" where
  "compress e pdfBuffer opts =
     (case pdfBuffer of
        NotABuffer \<Rightarrow> ([], Rejected (TypeError ''pdfBuffer must be an ArrayBuffer''))
      | Buffer buf \<Rightarrow>
          (if byteLength buf = 0 then
             ([], Rejected (CompressionError ''Empty PDF buffer'' Lossless 0 None None))
           else
             (case parsePreset (presetOrDefault opts) of
                None \<Rightarrow>
                  ([], Rejected (TypeError (''Invalid preset: '' @ presetOrDefault opts
                         @ ''. Must be '' @ sq @ ''lossless'' @ sq @ '', '' @ sq @ ''balanced''
                         @ sq @ '', or '' @ sq @ ''max'' @ sq @ ''.'')))
              | Some p \<Rightarrow>
                  (let fullOptions = withDefaults p opts;
                       content = (case buf of ArrayBuffer bs \<Rightarrow> bs | Detached \<Rightarrow> []);
                       tr0 = (if onProgress fullOptions
                              then [Progress ((mkEvent Chunking 0)\<lparr>message :=
                                      Some ''Initializing compression engine...''\<rparr>)]
                              else []) @ [LoadWASM] in
                   case loadWASM e (wasmUrl fullOptions) of
                     Rejected error \<Rightarrow>
                       (tr0, Rejected (CompressionError ''Failed to load compression engine'' p
                                         (byteLength buf) (Some Chunking) (Some error)))
                   | Pending \<Rightarrow> (tr0, Pending)
                   | Resolved _ \<Rightarrow>
                       (let run = orchestrateCompression e content fullOptions
                        in (tr0 @ fst run, snd run))))))"

section \<open>Concrete jobs\<close>

text \<open>The four bytes \<open>%PDF\<close>: the shortest buffer that \<^verbatim>\<open>isValidPDF\<close> accepts.\<close>

definition pdfHeader :: bytes where
  "pdfHeader = [0x25, 0x50, 0x44, 0x46]"

text \<open>A caller that passes no option at all.\<close>

definition noOptions :: "(string option) options" where
  "noOptions =
     \<lparr>preset = None, chunkSize = None, onProgress = False, wasmUrl = None,
      gracefulDegradation = None, preserveMetadata = None, targetDPI = None,
      jpegQuality = None, enableRasterization = None, mergeStrategy = None, timeout = None\<rparr>"

text \<open>
  The workers as \<^verbatim>\<open>getCompressionWorkerCode\<close> and \<^verbatim>\<open>getMergeWorkerCode\<close> define them:
  each posts \<^verbatim>\<open>{ type: 'error', error: 'Worker not implemented yet' }\<close>. The document
  has two pages; copying pages yields the four header bytes and one byte per page.
\<close>

definition placeholderEnv :: env where
  "placeholderEnv =
     \<lparr>isMobile = False, wasmOutcome = (\<lambda>url. WasmLoaded), pdfPageCount = (\<lambda>buffer. Inr 2),
      pdfCopyPages = (\<lambda>buffer pageIndices. Inr (pdfHeader @ map of_nat pageIndices)),
      pdfMetadata = (\<lambda>buffer. []),
      pdfMerge = (\<lambda>chunks md. Inr (concat chunks)),
      chunkWorker = (\<lambda>msg. ChunkErrorMessage ''Worker not implemented yet''),
      mergeWorker = (\<lambda>chunks md. ([], MergeErrorMessage ''Worker not implemented yet''))\<rparr>"

text \<open>
  Workers that do their job. The compression worker answers after 500 ms with the first
  three bytes of the chunk; the merge worker posts the progress values of the repository's
  merge worker (src/unnamed/part_002: 10, 30, 90, 100) and then the concatenation.
\<close>

definition workingEnv :: env where
  "workingEnv =
     placeholderEnv
       \<lparr>chunkWorker := (\<lambda>msg. ChunkComplete (take 3 (msgPdfData msg)) 500),
        mergeWorker := (\<lambda>chunks md. ([10, 30, 90, 100], MergeComplete (concat chunks)))\<rparr>"

text \<open>A compression worker that reports a document it cannot parse.\<close>

definition rejectingEnv :: env where
  "rejectingEnv =
     placeholderEnv\<lparr>chunkWorker := (\<lambda>msg. ChunkErrorMessage ''Invalid PDF structure'')\<rparr>"

text \<open>
  A compression worker that runs out of memory under \<^verbatim>\<open>max\<close> and reports an unparsable
  document under the milder presets.
\<close>

definition degradingEnv :: env where
  "degradingEnv =
     placeholderEnv
       \<lparr>chunkWorker := (\<lambda>msg. if msgPreset msg = MaxPreset then ChunkErrorMessage ''Out of memory''
                               else ChunkErrorMessage ''Invalid PDF structure'')\<rparr>"

text \<open>A caller asking for \<^verbatim>\<open>max\<close> with a progress callback.\<close>

definition maxWithCallback :: "(string option) options" where
  "maxWithCallback = noOptions\<lparr>preset := Some ''max'', onProgress := True\<rparr>"

text \<open>
  A job on the two-page document with one page per chunk, a progress callback and the
  defaults of \<^verbatim>\<open>compress\<close> otherwise (preset \<^verbatim>\<open>balanced\<close>, merge in a worker).
\<close>

definition twoChunkOptions :: "preset options" where
  "twoChunkOptions = withDefaults Balanced (noOptions\<lparr>chunkSize := Some 1, onProgress := True\<rparr>)"

text \<open>
  A 25-page document whose services show what they are asked for: copying pages yields the
  page indices as bytes, the compression worker returns the chunk as it is, and merging
  concatenates.
\<close>

definition echoEnv :: env where
  "echoEnv =
     placeholderEnv
       \<lparr>pdfPageCount := (\<lambda>buffer. Inr 25),
        pdfCopyPages := (\<lambda>buffer pageIndices. Inr (map of_nat pageIndices)),
        chunkWorker := (\<lambda>msg. ChunkComplete (msgPdfData msg) 0)\<rparr>"

text \<open>A job with ten pages per chunk, merged in the main thread.\<close>

definition tenPerChunkOptions :: "preset options" where
  "tenPerChunkOptions =
     withDefaults Balanced (noOptions\<lparr>chunkSize := Some 10, mergeStrategy := Some MainStrategy\<rparr>)"

section \<open>The degradation chain\<close>

text \<open>
  C4. The degradation chain computed for the preset "max" is exactly [max, balanced, lossless];
  for "balanced" it is exactly [balanced, lossless]; for "lossless" it is exactly [lossless].
\<close>

theorem fallback_chain_exact:
  "getPresetFallbackChain MaxPreset = [MaxPreset, Balanced, Lossless]
   \<and> getPresetFallbackChain Balanced = [Balanced, Lossless]
   \<and> getPresetFallbackChain Lossless = [Lossless]"
  by (simp add: getPresetFallbackChain_def)

section \<open>Chunk planning\<close>

lemma ceil_bounds_nat:
  fixes tp cs :: nat
  assumes "0 < cs"
  shows "((tp + cs - 1) div cs) * cs < tp + cs \<and> tp \<le> ((tp + cs - 1) div cs) * cs"
proof -
  define q where "q = (tp + cs - 1) div cs"
  have a: "q * cs \<le> tp + cs - 1"
    unfolding q_def by (rule div_times_less_eq_dividend)
  have b: "tp + cs - 1 < q * cs + cs"
    unfolding q_def using assms
    by (metis add.commute dividend_less_div_times mult.commute)
  show ?thesis using a b assms unfolding q_def by linarith
qed

lemma numChunksOf_div:
  assumes "0 < cs"
  shows "numChunksOf tp cs = (tp + cs - 1) div cs"
proof -
  define q where "q = (tp + cs - 1) div cs"
  have csr: "(0::rat) < of_nat cs" using assms by simp
  have b1: "q * cs < tp + cs" and b2: "tp \<le> q * cs"
    using ceil_bounds_nat [OF assms, of tp] unfolding q_def by auto
  have up: "(of_nat tp :: rat) / of_nat cs \<le> of_int (int q)"
  proof -
    have "(of_nat tp :: rat) \<le> of_nat (q * cs)" using b2 by (simp only: of_nat_le_iff)
    then show ?thesis using csr by (simp add: pos_divide_le_eq)
  qed
  have lo: "of_int (int q) - 1 < (of_nat tp :: rat) / of_nat cs"
  proof -
    have "(of_nat (q * cs) :: rat) < of_nat (tp + cs)" using b1 by (simp only: of_nat_less_iff)
    then have "(of_nat q - 1) * (of_nat cs :: rat) < of_nat tp"
      by (simp add: algebra_simps)
    then show ?thesis using csr by (simp add: pos_less_divide_eq)
  qed
  have "\<lceil>(of_nat tp :: rat) / of_nat cs\<rceil> = int q"
    using lo up by (rule ceiling_unique)
  then show ?thesis by (simp add: numChunksOf_def q_def)
qed

lemma chunk_concat_prefix:
  assumes "0 < cs" and "k * cs < tp + cs"
  shows "concat (map (\<lambda>i. [fst (chunkRange cs tp i)..<snd (chunkRange cs tp i)]) [0..<k])
           = [0..<min (k * cs) tp]"
  using assms(2)
proof (induction k)
  case 0
  then show ?case by simp
next
  case (Suc k)
  have lt: "k * cs < tp" using Suc.prems by simp
  then have ih: "concat (map (\<lambda>i. [fst (chunkRange cs tp i)..<snd (chunkRange cs tp i)]) [0..<k])
                   = [0..<k * cs]"
    using Suc.IH by simp
  have le: "k * cs \<le> min (Suc k * cs) tp" using lt by simp
  have "[0..<k * cs] @ [k * cs..<min (Suc k * cs) tp] = [0..<min (Suc k * cs) tp]"
    using le by (metis le_add_diff_inverse upt_add_eq_append zero_le)
  then show ?case using ih by (simp add: chunkRange_def)
qed

text \<open>
  The ranges by themselves: their number is the ceiling of the quotient, and their page
  lists, concatenated in chunk order, are 0, 1, ..., totalPages - 1, none of them empty.
\<close>

lemma chunk_ranges_cover:
  assumes "0 < totalPages" and "0 < cs"
  shows "numChunksOf totalPages cs = (totalPages + cs - 1) div cs
         \<and> (numChunksOf totalPages cs - 1) * cs < totalPages
         \<and> totalPages \<le> numChunksOf totalPages cs * cs
         \<and> concat (map (\<lambda>i. [fst (chunkRange cs totalPages i)..<snd (chunkRange cs totalPages i)])
                    [0..<numChunksOf totalPages cs]) = [0..<totalPages]
         \<and> (\<forall>i < numChunksOf totalPages cs.
               fst (chunkRange cs totalPages i) < snd (chunkRange cs totalPages i))
         \<and> map (\<lambda>i. snd (chunkRange 10 25 i) - fst (chunkRange 10 25 i)) [0..<numChunksOf 25 10]
             = [10, 10, 5]"
proof -
  define n where "n = numChunksOf totalPages cs"
  have n: "n = (totalPages + cs - 1) div cs"
    unfolding n_def using assms(2) by (rule numChunksOf_div)
  have b1: "n * cs < totalPages + cs" and b2: "totalPages \<le> n * cs"
    using ceil_bounds_nat [OF assms(2), of totalPages] unfolding n by auto
  have npos: "0 < n" using b2 assms(1) by (cases n) auto
  have lo: "(n - 1) * cs < totalPages"
    using b1 npos by (cases n) auto
  have cat: "concat (map (\<lambda>i. [fst (chunkRange cs totalPages i)..<snd (chunkRange cs totalPages i)])
                    [0..<n]) = [0..<totalPages]"
    using chunk_concat_prefix [OF assms(2) b1] b2 by simp
  have ne: "\<forall>i < n. fst (chunkRange cs totalPages i) < snd (chunkRange cs totalPages i)"
  proof (intro allI impI)
    fix i assume "i < n"
    then have "Suc i \<le> n - 1 + 1" by simp
    then have "i * cs + cs \<le> (n - 1) * cs + cs"
      by (metis Suc_eq_plus1 Suc_le_mono add_le_mono1 mult_le_mono1)
    then have "i * cs < totalPages" using lo assms(2) by linarith
    then show "fst (chunkRange cs totalPages i) < snd (chunkRange cs totalPages i)"
      using assms(2) by (simp add: chunkRange_def)
  qed
  have n25: "numChunksOf 25 10 = 3"
    by (simp add: numChunksOf_div)
  have ex: "map (\<lambda>i. snd (chunkRange 10 25 i) - fst (chunkRange 10 25 i)) [0..<numChunksOf 25 10]
             = [10, 10, 5]"
    unfolding n25 by (simp add: chunkRange_def upt_rec)
  show ?thesis using n lo b2 cat ne ex unfolding n_def by simp
qed

text \<open>
  What the loop asks of the services. The PDF library answers a copy request with \<open>enc\<close>
  of the page indices it was asked for, and the worker returns each chunk as it is, so the
  chunks the loop collects show the page ranges it extracted.
\<close>

lemma shifted_upt:
  "map (\<lambda>i. s + i) [0..<k - s] = [s..<k]"
proof (cases "s \<le> k")
  case True
  have "map (\<lambda>i. i + s) [0..<k - s] = [s..<k - s + s]"
    by (rule map_add_upt)
  then show ?thesis
    using True by (simp add: add.commute)
next
  case False
  then show ?thesis by simp
qed

lemma extractPages_indices:
  assumes "pdfPageCount e pdfBuffer = Inr pageCount"
      and "\<forall>pageIndices. pdfCopyPages e pdfBuffer pageIndices = Inr (enc pageIndices)"
      and "endPage \<le> pageCount"
  shows "extractPages e pdfBuffer startPage endPage = Resolved (enc [startPage..<endPage])"
  using assms by (simp add: extractPages_def Let_def min_absorb1 shifted_upt)

lemma compressChunk_echo:
  assumes "\<forall>msg. chunkWorker e msg = ChunkComplete (msgPdfData msg) (t msg)"
  shows "compressChunk e chunkPdf opts i = (Detached, Resolved chunkPdf)"
  using assms by (simp add: compressChunk_def Let_def)

lemma chunkLoop_echo:
  assumes "pdfPageCount e pdfBuffer = Inr pageCount"
      and "totalPages \<le> pageCount"
      and "\<forall>pageIndices. pdfCopyPages e pdfBuffer pageIndices = Inr (enc pageIndices)"
      and "\<forall>msg. chunkWorker e msg = ChunkComplete (msgPdfData msg) (t msg)"
      and "i \<le> n"
  shows "snd (chunkLoop e pdfBuffer opts cs totalPages n i trk chunks chunkStats)
           = Resolved
               (chunks @ map (\<lambda>j. enc [fst (chunkRange cs totalPages j)..<
                                        snd (chunkRange cs totalPages j)]) [i..<n],
                chunkStats @ map (\<lambda>j. (0, length (enc [fst (chunkRange cs totalPages j)..<
                                                       snd (chunkRange cs totalPages j)])))
                               [i..<n])"
  using assms(5)
proof (induction "n - i" arbitrary: i trk chunks chunkStats)
  case 0
  then have "\<not> i < n" and "[i..<n] = []"
    by simp_all
  then show ?case
    by (subst chunkLoop.simps) simp
next
  case (Suc k)
  then have lt: "i < n" and k: "k = n - Suc i" and le: "Suc i \<le> n"
    by simp_all
  let ?f = "\<lambda>j. enc [fst (chunkRange cs totalPages j)..<snd (chunkRange cs totalPages j)]"
  have "snd (chunkRange cs totalPages i) \<le> pageCount"
    using assms(2) by (simp add: chunkRange_def)
  then have x: "extractPages e pdfBuffer (fst (chunkRange cs totalPages i))
                  (snd (chunkRange cs totalPages i)) = Resolved (?f i)"
    using extractPages_indices [OF assms(1,3)] by blast
  note c = compressChunk_echo [OF assms(4)]
  have up: "[i..<n] = i # [Suc i..<n]"
    using lt by (simp add: upt_conv_Cons)
  show ?case
    by (subst chunkLoop.simps) (simp add: lt x c up Suc.hyps(1) [OF k le])
qed

lemma mergeChunks_main:
  assumes "mergeStrategy opts = Some MainStrategy"
      and "\<forall>chunks md. pdfMerge e chunks md = Inr (menc chunks)"
  shows "snd (mergeChunks e chunks md opts trk)
           = Resolved (if length chunks = 1 then chunks ! 0 else menc chunks)"
  using assms by (simp add: mergeChunks_def mergePDFs_def)

lemma compressWithPreset_echo:
  assumes "pdfPageCount e pdfBuffer = Inr totalPages"
      and "\<forall>pageIndices. pdfCopyPages e pdfBuffer pageIndices = Inr (enc pageIndices)"
      and "\<forall>msg. chunkWorker e msg = ChunkComplete (msgPdfData msg) (t msg)"
      and "chunkSize opts = Some cs"
      and "0 < cs"
      and "mergeStrategy opts = Some MainStrategy"
      and "\<forall>chunks md. pdfMerge e chunks md = Inr (menc chunks)"
  shows "\<exists>r. snd (compressWithPreset e pdfBuffer opts) = Resolved r
              \<and> chunksProcessed (stats r) = numChunksOf totalPages cs
              \<and> pdf r =
                  (if numChunksOf totalPages cs = 1
                   then enc [fst (chunkRange cs totalPages 0)..<snd (chunkRange cs totalPages 0)]
                   else menc (map (\<lambda>j. enc [fst (chunkRange cs totalPages j)..<
                                               snd (chunkRange cs totalPages j)])
                                  [0..<numChunksOf totalPages cs]))"
proof -
  let ?n = "numChunksOf totalPages cs"
  let ?f = "\<lambda>j. enc [fst (chunkRange cs totalPages j)..<snd (chunkRange cs totalPages j)]"
  have cp: "countPages e pdfBuffer = Resolved totalPages"
    using assms(1) by (simp add: countPages_def)
  have ecs: "effectiveChunkSize e opts totalPages (length pdfBuffer) = cs"
    using assms(4,5) by (simp add: effectiveChunkSize_def)
  have loop: "snd (chunkLoop e pdfBuffer opts cs totalPages ?n 0 trk [] [])
                = Resolved (map ?f [0..<?n],
                            map (\<lambda>j. (0, length (?f j))) [0..<?n])" for trk
    using chunkLoop_echo [OF assms(1) order_refl assms(2,3), of 0 ?n opts cs trk "[]" "[]"]
    by simp
  note merge = mergeChunks_main [OF assms(6,7)]
  have one: "?n = 1 \<Longrightarrow> map ?f [0..<?n] ! 0 = ?f 0"
    by simp
  show ?thesis
    using one
    by (simp add: compressWithPreset_def cp ecs loop merge Let_def case_prod_beta)
qed

text \<open>
  C3. For all totalPages > 0 and chunkSize > 0, the per-chunk page ranges produced by the
  orchestrator, [i * chunkSize, min((i + 1) * chunkSize, totalPages)) for
  i = 0 .. numChunks - 1, partition [0, totalPages) contiguously with no gaps or overlaps,
  and the number of chunks equals ceil(totalPages / chunkSize). The ranges are read off the
  loop of compressWithPreset: with a PDF library that answers a copy request with an
  encoding of the page indices it was asked for (on a document of at least totalPages
  pages, so that the clipping is the loop's) and a worker that returns each chunk as it is,
  the loop collects one chunk per range, in order, holding exactly the pages of that range;
  a pass with that chunk size, merged in the main thread, resolves with
  chunksProcessed = ceil(totalPages / chunkSize) and hands exactly those chunks to the
  merge. The page lists of the ranges, concatenated in chunk order, are
  0, 1, ..., totalPages - 1, and no range is empty. A 25-page document with chunkSize = 10
  yields 3 chunks of sizes [10, 10, 5].
\<close>

theorem chunk_ranges_partition:
  assumes "0 < totalPages" and "0 < cs"
      and "pdfPageCount e pdfBuffer = Inr pageCount"
      and "totalPages \<le> pageCount"
      and "\<forall>pageIndices. pdfCopyPages e pdfBuffer pageIndices = Inr (enc pageIndices)"
      and "\<forall>msg. chunkWorker e msg = ChunkComplete (msgPdfData msg) (t msg)"
  shows "snd (chunkLoop e pdfBuffer opts cs totalPages (numChunksOf totalPages cs) 0 trk [] [])
           = Resolved
               (map (\<lambda>i. enc [fst (chunkRange cs totalPages i)..<
                                snd (chunkRange cs totalPages i)])
                    [0..<numChunksOf totalPages cs],
                map (\<lambda>i. (0, length (enc [fst (chunkRange cs totalPages i)..<
                                              snd (chunkRange cs totalPages i)])))
                    [0..<numChunksOf totalPages cs])
         \<and> (pageCount = totalPages \<and> chunkSize opts = Some cs
              \<and> mergeStrategy opts = Some MainStrategy
              \<and> (\<forall>chunks md. pdfMerge e chunks md = Inr (menc chunks))
            \<longrightarrow> (\<exists>r. snd (compressWithPreset e pdfBuffer opts) = Resolved r
                    \<and> chunksProcessed (stats r) = (totalPages + cs - 1) div cs
                    \<and> pdf r =
                        (if numChunksOf totalPages cs = 1
                         then enc [fst (chunkRange cs totalPages 0)..<
                                   snd (chunkRange cs totalPages 0)]
                         else menc (map (\<lambda>i. enc [fst (chunkRange cs totalPages i)..<
                                                     snd (chunkRange cs totalPages i)])
                                        [0..<numChunksOf totalPages cs]))))
         \<and> numChunksOf totalPages cs = (totalPages + cs - 1) div cs
         \<and> (numChunksOf totalPages cs - 1) * cs < totalPages
         \<and> totalPages \<le> numChunksOf totalPages cs * cs
         \<and> concat (map (\<lambda>i. [fst (chunkRange cs totalPages i)..<snd (chunkRange cs totalPages i)])
                    [0..<numChunksOf totalPages cs]) = [0..<totalPages]
         \<and> (\<forall>i < numChunksOf totalPages cs.
               fst (chunkRange cs totalPages i) < snd (chunkRange cs totalPages i))
         \<and> map (\<lambda>i. snd (chunkRange 10 25 i) - fst (chunkRange 10 25 i)) [0..<numChunksOf 25 10]
             = [10, 10, 5]"
proof -
  have loop: "snd (chunkLoop e pdfBuffer opts cs totalPages (numChunksOf totalPages cs) 0 trk [] [])
           = Resolved
               (map (\<lambda>i. enc [fst (chunkRange cs totalPages i)..<
                                snd (chunkRange cs totalPages i)])
                    [0..<numChunksOf totalPages cs],
                map (\<lambda>i. (0, length (enc [fst (chunkRange cs totalPages i)..<
                                              snd (chunkRange cs totalPages i)])))
                    [0..<numChunksOf totalPages cs])"
    using chunkLoop_echo [OF assms(3,4,5,6), of 0 "numChunksOf totalPages cs" opts cs trk "[]" "[]"]
    by simp
  have pass: "pageCount = totalPages \<and> chunkSize opts = Some cs
              \<and> mergeStrategy opts = Some MainStrategy
              \<and> (\<forall>chunks md. pdfMerge e chunks md = Inr (menc chunks))
            \<longrightarrow> (\<exists>r. snd (compressWithPreset e pdfBuffer opts) = Resolved r
                    \<and> chunksProcessed (stats r) = (totalPages + cs - 1) div cs
                    \<and> pdf r =
                        (if numChunksOf totalPages cs = 1
                         then enc [fst (chunkRange cs totalPages 0)..<
                                   snd (chunkRange cs totalPages 0)]
                         else menc (map (\<lambda>i. enc [fst (chunkRange cs totalPages i)..<
                                                     snd (chunkRange cs totalPages i)])
                                        [0..<numChunksOf totalPages cs])))"
  proof (intro impI, elim conjE)
    assume a: "pageCount = totalPages" "chunkSize opts = Some cs"
      "mergeStrategy opts = Some MainStrategy"
      "\<forall>chunks md. pdfMerge e chunks md = Inr (menc chunks)"
    have pc: "pdfPageCount e pdfBuffer = Inr totalPages"
      using assms(3) a(1) by simp
    show "\<exists>r. snd (compressWithPreset e pdfBuffer opts) = Resolved r
              \<and> chunksProcessed (stats r) = (totalPages + cs - 1) div cs
              \<and> pdf r =
                  (if numChunksOf totalPages cs = 1
                   then enc [fst (chunkRange cs totalPages 0)..<snd (chunkRange cs totalPages 0)]
                   else menc (map (\<lambda>i. enc [fst (chunkRange cs totalPages i)..<
                                               snd (chunkRange cs totalPages i)])
                                  [0..<numChunksOf totalPages cs]))"
      using compressWithPreset_echo [OF pc assms(5,6) a(2) assms(2) a(3,4)]
            numChunksOf_div [OF assms(2), of totalPages]
      by simp
  qed
  show ?thesis
    using loop pass chunk_ranges_cover [OF assms(1,2)] by blast
qed

theorem chunk_ranges_partition_witness:
  "snd (chunkLoop echoEnv pdfHeader tenPerChunkOptions 10 25 (numChunksOf 25 10) 0
          (newTracker False) [] [])
     = Resolved ([map of_nat [0..<10], map of_nat [10..<20], map of_nat [20..<25]],
                 [(0, 10), (0, 10), (0, 5)])
   \<and> (\<exists>r. snd (compressWithPreset echoEnv pdfHeader tenPerChunkOptions) = Resolved r
            \<and> chunksProcessed (stats r) = 3
            \<and> pdf r = map of_nat [0..<10] @ map of_nat [10..<20] @ map of_nat [20..<25])"
proof -
  have h1: "(0::nat) < 25" and h2: "(0::nat) < 10" and h4: "(25::nat) \<le> 25"
    by simp_all
  have h3: "pdfPageCount echoEnv pdfHeader = Inr 25"
    by (simp add: echoEnv_def)
  have h5: "\<forall>pageIndices. pdfCopyPages echoEnv pdfHeader pageIndices = Inr (map of_nat pageIndices)"
    by (simp add: echoEnv_def)
  have h6: "\<forall>msg. chunkWorker echoEnv msg = ChunkComplete (msgPdfData msg) ((\<lambda>m. 0) msg)"
    by (simp add: echoEnv_def)
  have o: "25 = (25::nat) \<and> chunkSize tenPerChunkOptions = Some 10
           \<and> mergeStrategy tenPerChunkOptions = Some MainStrategy
           \<and> (\<forall>chunks md. pdfMerge echoEnv chunks md = Inr (concat chunks))"
    by (simp add: tenPerChunkOptions_def withDefaults_def echoEnv_def placeholderEnv_def)
  have n: "numChunksOf 25 10 = 3"
    by (simp add: numChunksOf_div)
  have r: "[0..<3] = [0, 1, 2]"
    by (simp add: upt_rec)
  note inst = chunk_ranges_partition [OF h1 h2 h3 h4 h5 h6, of tenPerChunkOptions
                                       "newTracker False" concat]
  have loop: "snd (chunkLoop echoEnv pdfHeader tenPerChunkOptions 10 25 (numChunksOf 25 10) 0
                     (newTracker False) [] [])
     = Resolved ([map of_nat [0..<10], map of_nat [10..<20], map of_nat [20..<25]],
                 [(0, 10), (0, 10), (0, 5)])"
    using inst unfolding n r by (simp add: chunkRange_def)
  have "\<exists>r. snd (compressWithPreset echoEnv pdfHeader tenPerChunkOptions) = Resolved r
            \<and> chunksProcessed (stats r) = 3
            \<and> pdf r = map of_nat [0..<10] @ map of_nat [10..<20] @ map of_nat [20..<25]"
    using inst o unfolding n r by (simp add: chunkRange_def)
  then show ?thesis
    using loop by blast
qed

section \<open>Input validation\<close>

text \<open>
  C9. For every input buffer whose byte length is zero, compress rejects with a
  CompressionError (message 'Empty PDF buffer', preset 'lossless', originalSize 0), not a
  TypeError, and nothing has happened before: no progress event, no engine loading, no pass.
\<close>

theorem empty_buffer_rejected:
  "byteLength buf = 0 \<Longrightarrow>
   compress e (Buffer buf) opts
     = ([], Rejected (CompressionError ''Empty PDF buffer'' Lossless 0 None None))"
  by (simp add: compress_def)

theorem empty_buffer_rejected_witness:
  "byteLength (ArrayBuffer []) = 0
   \<and> compress workingEnv (Buffer (ArrayBuffer [])) noOptions
       = ([], Rejected (CompressionError ''Empty PDF buffer'' Lossless 0 None None))"
  using empty_buffer_rejected [of "ArrayBuffer []" workingEnv noOptions] by simp

section \<open>A document of one chunk\<close>

lemma numChunksOf_single:
  assumes "0 < tp" and "tp \<le> cs"
  shows "numChunksOf tp cs = 1"
proof -
  have cs: "0 < cs" using assms by simp
  have "(tp + cs - 1) div cs = 1"
  proof -
    have "cs \<le> tp + cs - 1" and "tp + cs - 1 < 2 * cs" using assms by simp_all
    then show ?thesis
      by (metis One_nat_def cs div_less le_add_diff_inverse2
          div_add_self2 less_irrefl add.commute mult_2 nat_add_left_cancel_less plus_1_eq_Suc)
  qed
  then show ?thesis using numChunksOf_div [OF cs, of tp] by simp
qed

lemma getPresetFallbackChain_Cons:
  "\<exists>rest. getPresetFallbackChain p = p # rest"
  by (cases p) (simp_all add: getPresetFallbackChain_def)

lemma mergeChunks_single:
  "mergeChunks e [c] md opts trk = (trk, Resolved c)"
  by (simp add: mergeChunks_def)

lemma chunkLoop_single:
  assumes "extractPages e pdfBuffer 0 totalPages = Resolved chunkPdf"
      and "snd (compressChunk e chunkPdf opts 0) = Resolved compressed"
      and "totalPages \<le> cs"
  shows "snd (chunkLoop e pdfBuffer opts cs totalPages (Suc 0) 0 trk [] [])
           = Resolved ([compressed], [(0, length compressed)])"
proof -
  have r: "chunkRange cs totalPages 0 = (0, totalPages)"
    using assms(3) by (simp add: chunkRange_def min_def)
  have d: "fst (compressChunk e chunkPdf opts 0) = Detached"
    by (simp add: compressChunk_def Let_def)
  show ?thesis
    apply (subst chunkLoop.simps)
    apply (simp add: r assms(1) assms(2) d)
    apply (subst chunkLoop.simps)
    apply simp
    done
qed

lemma compressWithPreset_single:
  assumes "countPages e pdfBuffer = Resolved totalPages"
      and "0 < totalPages"
      and "totalPages \<le> effectiveChunkSize e opts totalPages (length pdfBuffer)"
      and "extractPages e pdfBuffer 0 totalPages = Resolved chunkPdf"
      and "snd (compressChunk e chunkPdf opts 0) = Resolved compressed"
  shows "\<exists>r. snd (compressWithPreset e pdfBuffer opts) = Resolved r \<and> pdf r = compressed
              \<and> chunksProcessed (stats r) = 1"
proof -
  have n: "numChunksOf totalPages (effectiveChunkSize e opts totalPages (length pdfBuffer)) = Suc 0"
    using numChunksOf_single [OF assms(2,3)] by simp
  note loop = chunkLoop_single [OF assms(4,5,3)]
  show ?thesis
    by (simp add: compressWithPreset_def assms(1) n loop mergeChunks_single Let_def
                  case_prod_beta)
qed

text \<open>
  C8. For every document that produces exactly one chunk (0 < totalPages <= chunkSize), the
  merge step returns that single chunk's bytes unchanged, under both merge strategies, and
  the call resolves with the compressed chunk as its artifact and chunksProcessed = 1.
\<close>

theorem single_chunk_passthrough:
  assumes "isValidPDF pdfBuffer"
      and "countPages e pdfBuffer = Resolved totalPages"
      and "0 < totalPages"
      and "totalPages \<le> effectiveChunkSize e opts totalPages (length pdfBuffer)"
      and "extractPages e pdfBuffer 0 totalPages = Resolved chunkPdf"
      and "snd (compressChunk e chunkPdf opts 0) = Resolved compressed"
  shows "numChunksOf totalPages (effectiveChunkSize e opts totalPages (length pdfBuffer)) = 1
         \<and> mergeChunks e [compressed] md (opts\<lparr>mergeStrategy := Some WorkerStrategy\<rparr>) trk
             = (trk, Resolved compressed)
         \<and> mergeChunks e [compressed] md (opts\<lparr>mergeStrategy := Some MainStrategy\<rparr>) trk
             = (trk, Resolved compressed)
         \<and> (\<exists>r. snd (orchestrateCompression e pdfBuffer opts) = Resolved r
                  \<and> pdf r = compressed \<and> chunksProcessed (stats r) = 1)"
proof -
  obtain r where r: "snd (compressWithPreset e pdfBuffer opts) = Resolved r"
      "pdf r = compressed" "chunksProcessed (stats r) = 1"
    using compressWithPreset_single [OF assms(2-6)] by blast
  have "\<exists>rest. (if gracefulDegradation opts \<noteq> Some False
                then getPresetFallbackChain (preset opts) else [preset opts])
               = preset opts # rest"
    by (simp add: getPresetFallbackChain_Cons)
  then obtain rest where chain:
    "(if gracefulDegradation opts \<noteq> Some False
      then getPresetFallbackChain (preset opts) else [preset opts]) = preset opts # rest"
    by blast
  have "\<exists>r'. snd (orchestrateCompression e pdfBuffer opts) = Resolved r'
              \<and> pdf r' = compressed \<and> chunksProcessed (stats r') = 1"
    unfolding orchestrateCompression_def
    by (simp add: assms(1) chain r Let_def del: if_split cong: if_cong)
  then show ?thesis
    using numChunksOf_single [OF assms(3,4)] by (simp add: mergeChunks_single)
qed

theorem single_chunk_passthrough_witness:
  "\<exists>r. snd (orchestrateCompression workingEnv pdfHeader
              (withDefaults Balanced (noOptions\<lparr>chunkSize := Some 10\<rparr>))) = Resolved r
       \<and> pdf r = take 3 pdfHeader \<and> chunksProcessed (stats r) = 1"
proof -
  let ?opts = "withDefaults Balanced (noOptions\<lparr>chunkSize := Some 10\<rparr>)"
  have h1: "isValidPDF pdfHeader"
    by code_simp
  have h2: "countPages workingEnv pdfHeader = Resolved 2"
    by (simp add: countPages_def workingEnv_def placeholderEnv_def)
  have h3: "(0::nat) < 2"
    by simp
  have h4: "2 \<le> effectiveChunkSize workingEnv ?opts 2 (length pdfHeader)"
    by (simp add: effectiveChunkSize_def withDefaults_def noOptions_def)
  have h5: "extractPages workingEnv pdfHeader 0 2 = Resolved (pdfHeader @ [0, 1])"
    by code_simp
  have h6: "snd (compressChunk workingEnv (pdfHeader @ [0, 1]) ?opts 0)
              = Resolved (take 3 pdfHeader)"
    by (simp add: compressChunk_def workingEnv_def placeholderEnv_def pdfHeader_def)
  show ?thesis
    using single_chunk_passthrough [OF h1 h2 h3 h4 h5 h6, of None "newTracker False"]
    by simp
qed

section \<open>Exhausted fallback\<close>

lemma presetLoop_all_rejected:
  assumes "\<forall>q \<in> set rest. \<exists>err. snd (compressWithPreset e pdfBuffer (opts\<lparr>preset := q\<rparr>))
                                    = Rejected err"
  shows "\<exists>lastError'. snd (presetLoop e pdfBuffer opts presetChain rest lastError)
                        = LoopDone lastError'"
  using assms
proof (induction rest arbitrary: lastError)
  case Nil
  then show ?case by simp
next
  case (Cons q rest)
  from Cons.prems obtain err where
    err: "snd (compressWithPreset e pdfBuffer (opts\<lparr>preset := q\<rparr>)) = Rejected err"
    by auto
  have "\<exists>lastError'. snd (presetLoop e pdfBuffer opts presetChain rest (Some err))
                        = LoopDone lastError'"
    using Cons.IH [of "Some err"] Cons.prems by simp
  then show ?case
    by (auto simp: err Let_def)
qed

lemma orchestrate_exhausted:
  assumes "isValidPDF pdfBuffer"
      and "gracefulDegradation opts \<noteq> Some False"
      and "\<forall>q \<in> set (getPresetFallbackChain (preset opts)).
             \<exists>err. snd (compressWithPreset e pdfBuffer (opts\<lparr>preset := q\<rparr>)) = Rejected err"
  shows "snd (orchestrateCompression e pdfBuffer opts)
           = Resolved \<lparr>pdf = pdfBuffer,
                       stats = \<lparr>originalSize = length pdfBuffer,
                                compressedSize = length pdfBuffer,
                                ratio = Finite 1, bytesSaved = 0, percentageSaved = Finite 0,
                                chunksProcessed = 0, presetUsed = preset opts\<rparr>,
                       warning = Some ''Compression failed. Returning original PDF.''\<rparr>"
proof -
  obtain lastError' where
    "snd (presetLoop e pdfBuffer opts (getPresetFallbackChain (preset opts))
            (getPresetFallbackChain (preset opts)) None) = LoopDone lastError'"
    using presetLoop_all_rejected [OF assms(3)] by blast
  then show ?thesis
    using assms(1,2) by (simp add: orchestrateCompression_def Let_def)
qed

lemma compressWithPreset_first_chunk_rejected:
  assumes "countPages e pdfBuffer = Resolved totalPages"
      and "0 < numChunksOf totalPages (effectiveChunkSize e opts totalPages (length pdfBuffer))"
      and "extractPages e pdfBuffer 0
             (min (effectiveChunkSize e opts totalPages (length pdfBuffer)) totalPages)
             = Resolved chunkPdf"
      and "snd (compressChunk e chunkPdf opts 0) = Rejected err"
  shows "snd (compressWithPreset e pdfBuffer opts) = Rejected err"
proof -
  let ?cs = "effectiveChunkSize e opts totalPages (length pdfBuffer)"
  have r: "chunkRange ?cs totalPages 0 = (0, min ?cs totalPages)"
    by (simp add: chunkRange_def)
  have "snd (chunkLoop e pdfBuffer opts ?cs totalPages (numChunksOf totalPages ?cs) 0 trk [] [])
          = Rejected err" for trk
    by (subst chunkLoop.simps) (simp add: r assms(2,3,4))
  then show ?thesis
    by (simp add: compressWithPreset_def assms(1) Let_def case_prod_beta)
qed

text \<open>
  With the two-page document of \<open>placeholderEnv\<close> and a compression worker that answers
  the first chunk with an \<^verbatim>\<open>error\<close> message, the pass rejects with that message.
\<close>

lemma two_page_pass_rejected:
  assumes "chunkSize opts = None"
      and "w \<lparr>msgChunkIndex = 0, msgPdfData = pdfHeader @ [0, 1], msgPreset = preset opts,
              msgTargetDPI = targetDPI opts, msgJpegQuality = jpegQuality opts,
              msgPreserveMetadata = preserveMetadata opts,
              msgEnableRasterization = enableRasterization opts\<rparr> = ChunkErrorMessage m"
  shows "snd (compressWithPreset (placeholderEnv\<lparr>chunkWorker := w\<rparr>) pdfHeader opts)
           = Rejected (Error m)"
proof -
  let ?e = "placeholderEnv\<lparr>chunkWorker := w\<rparr>"
  have cs: "effectiveChunkSize ?e opts 2 (length pdfHeader) = 10"
    using assms(1)
    by (simp add: effectiveChunkSize_def calculateChunkSize_def jsDiv_def placeholderEnv_def
                  pdfHeader_def)
  have h1: "countPages ?e pdfHeader = Resolved 2"
    by (simp add: countPages_def placeholderEnv_def)
  have h2: "0 < numChunksOf 2 (effectiveChunkSize ?e opts 2 (length pdfHeader))"
    unfolding cs by (simp add: numChunksOf_div)
  have h3: "extractPages ?e pdfHeader 0 (min (effectiveChunkSize ?e opts 2 (length pdfHeader)) 2)
              = Resolved (pdfHeader @ [0, 1])"
    unfolding cs by (simp add: extractPages_def placeholderEnv_def upt_rec)
  have h4: "snd (compressChunk ?e (pdfHeader @ [0, 1]) opts 0) = Rejected (Error m)"
    by (simp add: compressChunk_def Let_def assms(2))
  show ?thesis
    using h1 h2 h3 h4 by (rule compressWithPreset_first_chunk_rejected)
qed

lemma placeholder_pass_rejected:
  assumes "chunkSize opts = None"
  shows "snd (compressWithPreset placeholderEnv pdfHeader opts)
           = Rejected (Error ''Worker not implemented yet'')"
proof -
  have "placeholderEnv\<lparr>chunkWorker := (\<lambda>msg. ChunkErrorMessage ''Worker not implemented yet'')\<rparr>
          = placeholderEnv"
    by (simp add: placeholderEnv_def)
  then show ?thesis
    using two_page_pass_rejected [OF assms, of "\<lambda>msg. ChunkErrorMessage ''Worker not implemented yet''"
                                      "''Worker not implemented yet''"]
    by simp
qed

lemma worker_error_recoverable:
  "classifyError (Error ''Worker not implemented yet'') = WORKER_ERROR"
  by code_simp

text \<open>
  C2. For every job where graceful degradation is enabled and every preset in the fallback
  chain fails with a recoverable error, the compress call succeeds (does not throw), the
  returned artifact's bytes equal the original input bytes, the returned stats satisfy
  compressedSize == originalSize, ratio == 1, bytesSaved == 0, and a warning string is present
  in the result. A job is a call that reaches the passes: the buffer starts with the PDF
  magic bytes, the preset name is valid and the engine has loaded.
\<close>

theorem exhausted_fallback_returns_original:
  assumes "isValidPDF content"
      and "parsePreset (presetOrDefault opts) = Some p"
      and "loadWASM e (wasmUrl opts) = Resolved ()"
      and "gracefulDegradation opts \<noteq> Some False"
      and "\<forall>q \<in> set (getPresetFallbackChain p).
             \<exists>err. snd (compressWithPreset e content ((withDefaults p opts)\<lparr>preset := q\<rparr>))
                      = Rejected err
                   \<and> isRecoverableError (classifyError err)"
  shows "\<exists>r. snd (compress e (Buffer (ArrayBuffer content)) opts) = Resolved r
              \<and> pdf r = content
              \<and> originalSize (stats r) = length content
              \<and> compressedSize (stats r) = originalSize (stats r)
              \<and> ratio (stats r) = Finite 1
              \<and> bytesSaved (stats r) = 0
              \<and> warning r = Some ''Compression failed. Returning original PDF.''"
proof -
  have len: "length content \<noteq> 0"
    using assms(1) by (auto simp: isValidPDF_def)
  have p: "preset (withDefaults p opts) = p"
      and g: "gracefulDegradation (withDefaults p opts) \<noteq> Some False"
      and w: "wasmUrl (withDefaults p opts) = wasmUrl opts"
    using assms(4) by (simp_all add: withDefaults_def)
  have "\<forall>q \<in> set (getPresetFallbackChain (preset (withDefaults p opts))).
          \<exists>err. snd (compressWithPreset e content ((withDefaults p opts)\<lparr>preset := q\<rparr>))
                   = Rejected err"
    using assms(5) unfolding p by blast
  note run = orchestrate_exhausted [OF assms(1) g this]
  show ?thesis
    using len by (simp add: compress_def assms(2,3) w run Let_def)
qed

theorem exhausted_fallback_returns_original_witness:
  "\<exists>r. snd (compress placeholderEnv (Buffer (ArrayBuffer pdfHeader)) noOptions) = Resolved r
       \<and> pdf r = pdfHeader
       \<and> compressedSize (stats r) = originalSize (stats r)
       \<and> ratio (stats r) = Finite 1
       \<and> bytesSaved (stats r) = 0
       \<and> warning r = Some ''Compression failed. Returning original PDF.''"
proof -
  have h1: "isValidPDF pdfHeader"
    by code_simp
  have h2: "parsePreset (presetOrDefault noOptions) = Some Balanced"
    by (simp add: parsePreset_def presetOrDefault_def noOptions_def)
  have h3: "loadWASM placeholderEnv (wasmUrl noOptions) = Resolved ()"
    by (simp add: loadWASM_def placeholderEnv_def)
  have h4: "gracefulDegradation noOptions \<noteq> Some False"
    by (simp add: noOptions_def)
  have "chunkSize ((withDefaults Balanced noOptions)\<lparr>preset := q\<rparr>) = None" for q
    by (simp add: withDefaults_def noOptions_def)
  then have h5: "\<forall>q \<in> set (getPresetFallbackChain Balanced).
             \<exists>err. snd (compressWithPreset placeholderEnv pdfHeader
                          ((withDefaults Balanced noOptions)\<lparr>preset := q\<rparr>)) = Rejected err
                   \<and> isRecoverableError (classifyError err)"
    by (simp add: placeholder_pass_rejected worker_error_recoverable)
  show ?thesis
    using exhausted_fallback_returns_original [OF h1 h2 h3 h4 h5] by auto
qed

section \<open>Non-recoverable errors\<close>

lemma attemptedPresets_append:
  "attemptedPresets (xs @ ys) = attemptedPresets xs @ attemptedPresets ys"
  by (induction xs rule: attemptedPresets.induct) simp_all

lemma attemptedPresets_Progress:
  "attemptedPresets (map Progress evs) = []"
  by (induction evs) simp_all

lemma handle_nonrecoverable:
  "\<not> isRecoverableError (classifyError err) \<Longrightarrow>
   \<not> shouldRetry (snd (handleErrorWithGracefulDegradation err p g cb))"
  by (simp add: handleErrorWithGracefulDegradation_def Let_def)

lemma handle_recoverable:
  "isRecoverableError (classifyError err) \<Longrightarrow> getFallbackPreset p \<noteq> None \<Longrightarrow>
   shouldRetry (snd (handleErrorWithGracefulDegradation err p True cb))"
  by (auto simp: handleErrorWithGracefulDegradation_def Let_def)

lemma presetLoop_stops:
  assumes "snd (compressWithPreset e pdfBuffer (opts\<lparr>preset := q\<rparr>)) = Rejected err"
      and "\<not> isRecoverableError (classifyError err)"
      and "onProgress opts \<or> q = presetChain ! (length presetChain - 1)"
  shows "attemptedPresets (fst (presetLoop e pdfBuffer opts presetChain (q # post) lastError)) = [q]
         \<and> snd (presetLoop e pdfBuffer opts presetChain (q # post) lastError)
             = LoopDone (Some err)"
  using assms(3) handle_nonrecoverable [OF assms(2), of q True True]
  by (auto simp: assms(1) Let_def attemptedPresets_append attemptedPresets_Progress)

lemma presetLoop_reaches:
  assumes "onProgress opts"
      and "snd (compressWithPreset e pdfBuffer (opts\<lparr>preset := q\<rparr>)) = Rejected err"
      and "\<not> isRecoverableError (classifyError err)"
      and "\<forall>q' \<in> set pre.
             (\<exists>err'. snd (compressWithPreset e pdfBuffer (opts\<lparr>preset := q'\<rparr>)) = Rejected err'
                     \<and> isRecoverableError (classifyError err'))
             \<and> q' \<noteq> presetChain ! (length presetChain - 1)
             \<and> getFallbackPreset q' \<noteq> None"
  shows "attemptedPresets (fst (presetLoop e pdfBuffer opts presetChain (pre @ q # post) lastError))
           = pre @ [q]
         \<and> snd (presetLoop e pdfBuffer opts presetChain (pre @ q # post) lastError)
             = LoopDone (Some err)"
  using assms(4)
proof (induction pre arbitrary: lastError)
  case Nil
  show ?case
    using presetLoop_stops [OF assms(2,3), of presetChain post lastError] assms(1) by simp
next
  case (Cons a pre)
  from Cons.prems obtain err' where
    a: "snd (compressWithPreset e pdfBuffer (opts\<lparr>preset := a\<rparr>)) = Rejected err'"
       "isRecoverableError (classifyError err')"
       "a \<noteq> presetChain ! (length presetChain - 1)"
       "getFallbackPreset a \<noteq> None"
    by auto
  have retry: "shouldRetry (snd (handleErrorWithGracefulDegradation err' a True True))"
    using a(2,4) by (rule handle_recoverable)
  have ih: "attemptedPresets (fst (presetLoop e pdfBuffer opts presetChain (pre @ q # post)
                                    (Some err'))) = pre @ [q]
            \<and> snd (presetLoop e pdfBuffer opts presetChain (pre @ q # post) (Some err'))
                = LoopDone (Some err)"
    using Cons.IH [of "Some err'"] Cons.prems by simp
  show ?case
    using ih retry a(3) assms(1)
    by (simp add: a(1) Let_def attemptedPresets_append attemptedPresets_Progress)
qed

lemma chain_prefix_has_fallback:
  assumes "getPresetFallbackChain p = pre @ q # post" and "q' \<in> set pre"
  shows "q' \<noteq> getPresetFallbackChain p ! (length (getPresetFallbackChain p) - 1)
         \<and> getFallbackPreset q' \<noteq> None"
  using assms
  by (cases p) (auto simp: getPresetFallbackChain_def append_eq_Cons_conv Cons_eq_append_conv)


lemma orchestrate_nonrecoverable:
  assumes "isValidPDF pdfBuffer"
      and "(if gracefulDegradation opts \<noteq> Some False
            then getPresetFallbackChain (preset opts) else [preset opts]) = pre @ q # post"
      and "\<forall>q' \<in> set pre.
             \<exists>err'. snd (compressWithPreset e pdfBuffer (opts\<lparr>preset := q'\<rparr>)) = Rejected err'
                    \<and> isRecoverableError (classifyError err')"
      and "snd (compressWithPreset e pdfBuffer (opts\<lparr>preset := q\<rparr>)) = Rejected err"
      and "\<not> isRecoverableError (classifyError err)"
      and "gracefulDegradation opts = Some False \<or> onProgress opts"
  shows "attemptedPresets (fst (orchestrateCompression e pdfBuffer opts)) = pre @ [q]
         \<and> (if gracefulDegradation opts = Some False
            then snd (orchestrateCompression e pdfBuffer opts) = Rejected err
            else \<exists>r. snd (orchestrateCompression e pdfBuffer opts) = Resolved r
                     \<and> pdf r = pdfBuffer
                     \<and> warning r = Some ''Compression failed. Returning original PDF.'')"
proof (cases "gracefulDegradation opts = Some False")
  case True
  then have "[preset opts] = pre @ q # post"
    using assms(2) by simp
  then have pq: "pre = []" "q = preset opts" "post = []"
    by (simp_all add: Cons_eq_append_conv)
  have "q = [preset opts] ! (length [preset opts] - 1)"
    using pq by simp
  then have loop:
    "attemptedPresets (fst (presetLoop e pdfBuffer opts [preset opts] (q # post) None)) = [q]
     \<and> snd (presetLoop e pdfBuffer opts [preset opts] (q # post) None) = LoopDone (Some err)"
    using presetLoop_stops [OF assms(4,5), of "[preset opts]" post None] by blast
  show ?thesis
    using True loop assms(1) pq
    by (simp add: orchestrateCompression_def Let_def)
next
  case False
  then have cb: "onProgress opts"
    using assms(6) by simp
  have chain: "getPresetFallbackChain (preset opts) = pre @ q # post"
    using False assms(2) by simp
  have "\<forall>q' \<in> set pre.
          (\<exists>err'. snd (compressWithPreset e pdfBuffer (opts\<lparr>preset := q'\<rparr>)) = Rejected err'
                  \<and> isRecoverableError (classifyError err'))
          \<and> q' \<noteq> getPresetFallbackChain (preset opts)
                     ! (length (getPresetFallbackChain (preset opts)) - 1)
          \<and> getFallbackPreset q' \<noteq> None"
    using assms(3) chain_prefix_has_fallback [OF chain] by blast
  note loop = presetLoop_reaches [OF cb assms(4,5) this, of post None]
  show ?thesis
    using False loop assms(1) cb
    by (simp add: orchestrateCompression_def Let_def chain [symmetric]
                  attemptedPresets_append)
qed

lemma compress_nonrecoverable:
  assumes "isValidPDF content"
      and "parsePreset (presetOrDefault opts) = Some p"
      and "loadWASM e (wasmUrl opts) = Resolved ()"
      and "(if gracefulDegradation opts \<noteq> Some False then getPresetFallbackChain p else [p])
             = pre @ q # post"
      and "\<forall>q' \<in> set pre.
             \<exists>err'. snd (compressWithPreset e content ((withDefaults p opts)\<lparr>preset := q'\<rparr>))
                       = Rejected err'
                    \<and> isRecoverableError (classifyError err')"
      and "snd (compressWithPreset e content ((withDefaults p opts)\<lparr>preset := q\<rparr>))
             = Rejected err"
      and "\<not> isRecoverableError (classifyError err)"
      and "gracefulDegradation opts = Some False \<or> onProgress opts"
  shows "attemptedPresets (fst (compress e (Buffer (ArrayBuffer content)) opts)) = pre @ [q]
         \<and> (if gracefulDegradation opts = Some False
            then snd (compress e (Buffer (ArrayBuffer content)) opts) = Rejected err
            else \<exists>r. snd (compress e (Buffer (ArrayBuffer content)) opts) = Resolved r
                     \<and> pdf r = content
                     \<and> warning r = Some ''Compression failed. Returning original PDF.'')"
proof -
  let ?full = "withDefaults p opts"
  have len: "length content \<noteq> 0"
    using assms(1) by (auto simp: isValidPDF_def)
  have f: "preset ?full = p" "wasmUrl ?full = wasmUrl opts" "onProgress ?full = onProgress opts"
      "gracefulDegradation ?full = Some (gracefulDegradation opts \<noteq> Some False)"
    by (simp_all add: withDefaults_def)
  have g: "(gracefulDegradation ?full = Some False) = (gracefulDegradation opts = Some False)"
    unfolding f by simp
  have chain: "(if gracefulDegradation ?full \<noteq> Some False
                then getPresetFallbackChain (preset ?full) else [preset ?full]) = pre @ q # post"
    using assms(4) unfolding g f(1) by simp
  have cb: "gracefulDegradation ?full = Some False \<or> onProgress ?full"
    using assms(8) unfolding g f(3) .
  note run = orchestrate_nonrecoverable [OF assms(1) chain assms(5,6,7) cb]
  have c: "compress e (Buffer (ArrayBuffer content)) opts
             = ((if onProgress opts
                 then [Progress ((mkEvent Chunking 0)\<lparr>message :=
                         Some ''Initializing compression engine...''\<rparr>)]
                 else []) @ [LoadWASM] @ fst (orchestrateCompression e content ?full),
                snd (orchestrateCompression e content ?full))"
    using len by (simp add: compress_def assms(2,3) f Let_def)
  show ?thesis
    using run unfolding c g by (simp add: attemptedPresets_append)
qed

text \<open>
  C1 (as the code has it). When a preset's pass fails with a non-recoverable error
  (INVALID_PDF, WASM_LOAD_FAILED or VALIDATION_FAILED) after the earlier passes failed with
  recoverable ones: if graceful degradation is disabled, no further preset is attempted and
  the call rejects with that error, with or without an onProgress callback; if graceful
  degradation is enabled and an onProgress callback was supplied, no further preset is
  attempted and the call does not reject: it resolves with the original bytes and the
  warning 'Compression failed. Returning original PDF.'.
\<close>

theorem nonrecoverable_stops_chain:
  assumes "isValidPDF content"
      and "parsePreset (presetOrDefault opts) = Some p"
      and "loadWASM e (wasmUrl opts) = Resolved ()"
      and "(if gracefulDegradation opts \<noteq> Some False then getPresetFallbackChain p else [p])
             = pre @ q # post"
      and "\<forall>q' \<in> set pre.
             \<exists>err'. snd (compressWithPreset e content ((withDefaults p opts)\<lparr>preset := q'\<rparr>))
                       = Rejected err'
                    \<and> isRecoverableError (classifyError err')"
      and "snd (compressWithPreset e content ((withDefaults p opts)\<lparr>preset := q\<rparr>))
             = Rejected err"
      and "\<not> isRecoverableError (classifyError err)"
      and "gracefulDegradation opts = Some False \<or> onProgress opts"
  shows "attemptedPresets (fst (compress e (Buffer (ArrayBuffer content)) opts)) = pre @ [q]
         \<and> (if gracefulDegradation opts = Some False
            then snd (compress e (Buffer (ArrayBuffer content)) opts) = Rejected err
            else \<exists>r. snd (compress e (Buffer (ArrayBuffer content)) opts) = Resolved r
                     \<and> pdf r = content
                     \<and> warning r = Some ''Compression failed. Returning original PDF.'')"
  using assms by (rule compress_nonrecoverable)

theorem nonrecoverable_stops_chain_witness:
  "attemptedPresets (fst (compress degradingEnv (Buffer (ArrayBuffer pdfHeader)) maxWithCallback))
     = [MaxPreset, Balanced]
   \<and> isResolved (snd (compress degradingEnv (Buffer (ArrayBuffer pdfHeader)) maxWithCallback))"
proof -
  let ?full = "withDefaults MaxPreset maxWithCallback"
  have h1: "isValidPDF pdfHeader"
    by code_simp
  have h2: "parsePreset (presetOrDefault maxWithCallback) = Some MaxPreset"
    by (simp add: parsePreset_def presetOrDefault_def maxWithCallback_def noOptions_def)
  have h3: "loadWASM degradingEnv (wasmUrl maxWithCallback) = Resolved ()"
    by (simp add: loadWASM_def degradingEnv_def placeholderEnv_def)
  have g: "gracefulDegradation maxWithCallback \<noteq> Some False"
    by (simp add: maxWithCallback_def noOptions_def)
  have h4: "(if gracefulDegradation maxWithCallback \<noteq> Some False
             then getPresetFallbackChain MaxPreset else [MaxPreset])
              = [MaxPreset] @ Balanced # [Lossless]"
    using g by (simp add: getPresetFallbackChain_def)
  have cs: "chunkSize (?full\<lparr>preset := q\<rparr>) = None" for q
    by (simp add: withDefaults_def maxWithCallback_def noOptions_def)
  have m: "snd (compressWithPreset degradingEnv pdfHeader (?full\<lparr>preset := MaxPreset\<rparr>))
             = Rejected (Error ''Out of memory'')"
    unfolding degradingEnv_def by (rule two_page_pass_rejected [OF cs]) simp
  have mk: "isRecoverableError (classifyError (Error ''Out of memory''))"
    by code_simp
  have h5: "\<forall>q' \<in> set [MaxPreset].
              \<exists>err'. snd (compressWithPreset degradingEnv pdfHeader (?full\<lparr>preset := q'\<rparr>))
                        = Rejected err'
                     \<and> isRecoverableError (classifyError err')"
    using m mk by simp
  have h6: "snd (compressWithPreset degradingEnv pdfHeader (?full\<lparr>preset := Balanced\<rparr>))
              = Rejected (Error ''Invalid PDF structure'')"
    unfolding degradingEnv_def by (rule two_page_pass_rejected [OF cs]) simp
  have h7: "\<not> isRecoverableError (classifyError (Error ''Invalid PDF structure''))"
    by code_simp
  have h8: "gracefulDegradation maxWithCallback = Some False \<or> onProgress maxWithCallback"
    by (simp add: maxWithCallback_def noOptions_def)
  show ?thesis
    using nonrecoverable_stops_chain [OF h1 h2 h3 h4 h5 h6 h7 h8] g by auto
qed

text \<open>
  C1 as stated fails: under \<^verbatim>\<open>max\<close> with graceful degradation enabled (the default)
  and a callback supplied, the pass fails with 'Invalid PDF structure', which is classified
  INVALID_PDF and not recoverable, and yet the call does not reject.
\<close>

theorem nonrecoverable_not_rejected_counterexample:
  "snd (compressWithPreset rejectingEnv pdfHeader (withDefaults MaxPreset maxWithCallback))
     = Rejected (Error ''Invalid PDF structure'')
   \<and> classifyError (Error ''Invalid PDF structure'') = INVALID_PDF
   \<and> \<not> isRecoverableError INVALID_PDF
   \<and> gracefulDegradation (withDefaults MaxPreset maxWithCallback) = Some True
   \<and> \<not> isRejected (snd (compress rejectingEnv (Buffer (ArrayBuffer pdfHeader)) maxWithCallback))
   \<and> isResolved (snd (compress rejectingEnv (Buffer (ArrayBuffer pdfHeader)) maxWithCallback))"
proof -
  let ?full = "withDefaults MaxPreset maxWithCallback"
  have cs: "chunkSize ?full = None"
    by (simp add: withDefaults_def maxWithCallback_def noOptions_def)
  have pass: "snd (compressWithPreset rejectingEnv pdfHeader ?full)
                = Rejected (Error ''Invalid PDF structure'')"
    unfolding rejectingEnv_def by (rule two_page_pass_rejected [OF cs]) simp
  have k: "classifyError (Error ''Invalid PDF structure'') = INVALID_PDF"
    by code_simp
  have g: "gracefulDegradation ?full = Some True"
    by (simp add: withDefaults_def maxWithCallback_def noOptions_def)
  have h1: "isValidPDF pdfHeader"
    by code_simp
  have h2: "parsePreset (presetOrDefault maxWithCallback) = Some MaxPreset"
    by (simp add: parsePreset_def presetOrDefault_def maxWithCallback_def noOptions_def)
  have h3: "loadWASM rejectingEnv (wasmUrl maxWithCallback) = Resolved ()"
    by (simp add: loadWASM_def rejectingEnv_def placeholderEnv_def)
  have g': "gracefulDegradation maxWithCallback \<noteq> Some False"
    by (simp add: maxWithCallback_def noOptions_def)
  have h4: "(if gracefulDegradation maxWithCallback \<noteq> Some False
             then getPresetFallbackChain MaxPreset else [MaxPreset])
              = [] @ MaxPreset # [Balanced, Lossless]"
    using g' by (simp add: getPresetFallbackChain_def)
  have h5: "\<forall>q' \<in> set [].
              \<exists>err'. snd (compressWithPreset rejectingEnv pdfHeader (?full\<lparr>preset := q'\<rparr>))
                        = Rejected err'
                     \<and> isRecoverableError (classifyError err')"
    by simp
  have same: "?full\<lparr>preset := MaxPreset\<rparr> = ?full"
    by (simp add: withDefaults_def)
  have h6: "snd (compressWithPreset rejectingEnv pdfHeader (?full\<lparr>preset := MaxPreset\<rparr>))
              = Rejected (Error ''Invalid PDF structure'')"
    unfolding same by (rule pass)
  have h7: "\<not> isRecoverableError (classifyError (Error ''Invalid PDF structure''))"
    unfolding k by simp
  have h8: "gracefulDegradation maxWithCallback = Some False \<or> onProgress maxWithCallback"
    by (simp add: maxWithCallback_def noOptions_def)
  have "isResolved (snd (compress rejectingEnv (Buffer (ArrayBuffer pdfHeader)) maxWithCallback))"
    using compress_nonrecoverable [OF h1 h2 h3 h4 h5 h6 h7 h8] g' by auto
  then show ?thesis
    using pass k g
    by (cases "snd (compress rejectingEnv (Buffer (ArrayBuffer pdfHeader)) maxWithCallback)")
       simp_all
qed

text \<open>
  Without a callback the classification is never consulted: on the same document, with
  graceful degradation enabled and no \<^verbatim>\<open>onProgress\<close>, all three presets are attempted
  although the first pass already failed with the non-recoverable 'Invalid PDF structure'.
\<close>

lemma no_callback_all_presets_attempted:
  "attemptedPresets (fst (compress rejectingEnv (Buffer (ArrayBuffer pdfHeader))
                            (noOptions\<lparr>preset := Some ''max''\<rparr>)))
     = [MaxPreset, Balanced, Lossless]"
proof -
  let ?opts = "noOptions\<lparr>preset := Some ''max''\<rparr>"
  let ?full = "withDefaults MaxPreset ?opts"
  have cs: "chunkSize (?full\<lparr>preset := q\<rparr>) = None" for q
    by (simp add: withDefaults_def noOptions_def)
  have pass: "snd (compressWithPreset rejectingEnv pdfHeader (?full\<lparr>preset := q\<rparr>))
                = Rejected (Error ''Invalid PDF structure'')" for q
    unfolding rejectingEnv_def by (rule two_page_pass_rejected [OF cs]) simp
  have f: "preset ?full = MaxPreset" "onProgress ?full = False"
      "gracefulDegradation ?full = Some True"
    by (simp_all add: withDefaults_def noOptions_def)
  have v: "isValidPDF pdfHeader"
    by code_simp
  have run: "attemptedPresets (fst (orchestrateCompression rejectingEnv pdfHeader ?full))
               = [MaxPreset, Balanced, Lossless]"
    by (simp add: orchestrateCompression_def v f pass Let_def getPresetFallbackChain_def
                  attemptedPresets_append attemptedPresets_Progress)
  have p: "parsePreset (presetOrDefault ?opts) = Some MaxPreset"
    by (simp add: parsePreset_def presetOrDefault_def)
  have w: "loadWASM rejectingEnv (wasmUrl ?full) = Resolved ()"
    by (simp add: loadWASM_def rejectingEnv_def placeholderEnv_def)
  have "attemptedPresets (fst (compress rejectingEnv (Buffer (ArrayBuffer pdfHeader)) ?opts))
          = attemptedPresets (fst (orchestrateCompression rejectingEnv pdfHeader ?full))"
    by (simp add: compress_def p w f Let_def attemptedPresets_append) (simp add: pdfHeader_def)
  then show ?thesis
    using run by simp
qed

section \<open>A job of two chunks, evaluated\<close>

lemmas tracker_defs =
  newTracker_def emit_def calculateProgress_def estimateTimeRemaining_def emitProgress_def
  setTotalChunks_def setPhase_def reportChunkingProgress_def startChunk_def completeChunk_def
  reportMergingProgress_def reportComplete_def mkEvent_def

lemma two_chunk_setup:
  "countPages workingEnv pdfHeader = Resolved 2"
  "effectiveChunkSize workingEnv twoChunkOptions 2 (length pdfHeader) = Suc 0"
  "numChunksOf 2 (Suc 0) = 2"
  "onProgress twoChunkOptions"
  "mergeStrategy twoChunkOptions = Some WorkerStrategy"
  "cfgPreserveMetadata (getPresetConfigWithOverrides (preset twoChunkOptions)
      \<lparr>ovTargetDPI = Some (targetDPI twoChunkOptions),
       ovJpegQuality = Some (jpegQuality twoChunkOptions),
       ovPreserveMetadata = Some (preserveMetadata twoChunkOptions),
       ovEnableRasterization = Some (enableRasterization twoChunkOptions)\<rparr>) = None"
  by (simp_all add: countPages_def effectiveChunkSize_def twoChunkOptions_def withDefaults_def
        noOptions_def workingEnv_def placeholderEnv_def numChunksOf_div
        getPresetConfigWithOverrides_def spreadField_def)

lemma two_chunk_loop:
  "chunkLoop workingEnv pdfHeader twoChunkOptions (Suc 0) 2 2 0 trk [] []
     = (completeChunk (Suc 0) 3 (startChunk (Suc 0) (completeChunk 0 3 (startChunk 0 trk))),
        Resolved ([take 3 pdfHeader, take 3 pdfHeader], [(0, 3), (0, 3)]))"
  by (simp add: chunkLoop.simps chunkRange_def extractPages_def compressChunk_def Let_def
        workingEnv_def placeholderEnv_def pdfHeader_def upt_rec numeral_3_eq_3)

lemma two_chunk_merge:
  "mergeChunks workingEnv [take 3 pdfHeader, take 3 pdfHeader] None twoChunkOptions trk
     = (reportMergingProgress 100 (reportMergingProgress 90 (reportMergingProgress 30
          (reportMergingProgress 10 trk))),
        Resolved (take 3 pdfHeader @ take 3 pdfHeader))"
  by (simp add: mergeChunks_def two_chunk_setup workingEnv_def placeholderEnv_def)

lemma two_chunk_pass:
  "compressWithPreset workingEnv pdfHeader twoChunkOptions =
  ([\<lparr>phase = Chunking, progress = 0, currentChunk = Some 1,
      totalChunks = Some 0, estimatedTimeRemaining = None, message = None\<rparr>,
   \<lparr>phase = Chunking, progress = 50, currentChunk = None,
      totalChunks = None, estimatedTimeRemaining = None, message = None\<rparr>,
   \<lparr>phase = Chunking, progress = 100, currentChunk = None,
      totalChunks = None, estimatedTimeRemaining = None, message = None\<rparr>,
   \<lparr>phase = Compressing, progress = 10, currentChunk = Some 1,
      totalChunks = Some 2, estimatedTimeRemaining = None, message = None\<rparr>,
   \<lparr>phase = Compressing, progress = 50, currentChunk = Some 1,
      totalChunks = Some 2, estimatedTimeRemaining = Some 3,
      message = None\<rparr>,
   \<lparr>phase = Compressing, progress = 50, currentChunk = Some 2,
      totalChunks = Some 2, estimatedTimeRemaining = None, message = None\<rparr>,
   \<lparr>phase = Compressing, progress = 90, currentChunk = Some 2,
      totalChunks = Some 2, estimatedTimeRemaining = None, message = None\<rparr>,
   \<lparr>phase = Merging, progress = 95, currentChunk = Some 3,
      totalChunks = Some 2, estimatedTimeRemaining = None, message = None\<rparr>,
   \<lparr>phase = Merging, progress = 91, currentChunk = None, totalChunks = None,
      estimatedTimeRemaining = None, message = None\<rparr>,
   \<lparr>phase = Merging, progress = 93, currentChunk = None, totalChunks = None,
      estimatedTimeRemaining = None, message = None\<rparr>,
   \<lparr>phase = Merging, progress = 95, currentChunk = None, totalChunks = None,
      estimatedTimeRemaining = None, message = None\<rparr>,
   \<lparr>phase = Merging, progress = 95, currentChunk = None, totalChunks = None,
      estimatedTimeRemaining = None, message = None\<rparr>,
   \<lparr>phase = Merging, progress = 100, currentChunk = None,
      totalChunks = None, estimatedTimeRemaining = None, message = None\<rparr>],
  Resolved
   \<lparr>pdf = [37, 80, 68, 37, 80, 68],
      stats =
        \<lparr>originalSize = 0, compressedSize = 6, ratio = PosInfinity,
           bytesSaved = - 6, percentageSaved = NegInfinity,
           chunksProcessed = 2\<rparr>\<rparr>)"
  unfolding compressWithPreset_def
  apply (simp add: two_chunk_setup two_chunk_loop two_chunk_merge Let_def)
  apply (simp add: tracker_defs jsDiv_def pdfHeader_def)
  done

section \<open>Progress bands\<close>

text \<open>
  The compressing phase by itself: with k of n chunks completed, k <= n, the value is
  10 + 80 * k / n, it lies within [10, 90], and it does not decrease when a chunk completes.
\<close>

lemma compressing_progress_band:
  assumes "trkCurrentPhase t = Compressing"
      and "0 < trkTotalChunks t"
      and "trkCompletedChunks t \<le> trkTotalChunks t"
  shows "calculateProgress t
           = 10 + 80 * (of_nat (trkCompletedChunks t) / of_nat (trkTotalChunks t))"
    and "10 \<le> calculateProgress t"
    and "calculateProgress t \<le> 90"
proof -
  let ?q = "(of_nat (trkCompletedChunks t) :: rat) / of_nat (trkTotalChunks t)"
  show eq: "calculateProgress t = 10 + 80 * ?q"
    using assms(1,2) by (simp add: calculateProgress_def Let_def)
  have "0 \<le> ?q"
    by simp
  then show "10 \<le> calculateProgress t"
    unfolding eq by simp
  have "?q \<le> 1"
    using assms(2,3) by (simp add: divide_le_eq_1)
  then show "calculateProgress t \<le> 90"
    unfolding eq by simp
qed

lemma compressing_progress_mono:
  assumes "trkCurrentPhase t = Compressing" and "0 < trkTotalChunks t"
  shows "calculateProgress t
           \<le> calculateProgress (t\<lparr>trkCompletedChunks := trkCompletedChunks t + 1\<rparr>)"
  using assms by (simp add: calculateProgress_def Let_def divide_right_mono)

text \<open>
  C5 says that every progress value lies within the band of its phase (chunking [0,10],
  compressing [10,90], merging [90,100]) and that the values of one phase never decrease.
  On the two-page job with one page per chunk the callback receives, in the chunking phase,
  the values 0, 50 and 100, and in the merging phase 95 followed by 91. The compressing
  phase alone behaves as claimed.
\<close>

theorem progress_bands_two_chunk_job:
  "map progress (filter (\<lambda>ev. phase ev = Chunking)
                  (fst (compressWithPreset workingEnv pdfHeader twoChunkOptions)))
     = [0, 50, 100]
   \<and> map progress (filter (\<lambda>ev. phase ev = Compressing)
                  (fst (compressWithPreset workingEnv pdfHeader twoChunkOptions)))
     = [10, 50, 50, 90]
   \<and> map progress (filter (\<lambda>ev. phase ev = Merging)
                  (fst (compressWithPreset workingEnv pdfHeader twoChunkOptions)))
     = [95, 91, 93, 95, 95, 100]"
  by (simp add: two_chunk_pass)

section \<open>Estimated time remaining\<close>

text \<open>
  The tracker by itself: the estimate is undefined while no value is recorded or once all
  chunks are complete, and otherwise the ceiling of the mean of the recorded values times
  the number of remaining chunks.
\<close>

lemma foldl_plus_sum_list:
  "foldl (+) a xs = a + sum_list (xs :: nat list)"
  by (induction xs arbitrary: a) simp_all

lemma estimateTimeRemaining_recorded:
  "estimateTimeRemaining t =
     (if trkChunkTimes t = [] \<or> trkTotalChunks t \<le> trkCompletedChunks t then None
      else Some \<lceil>(of_nat (sum_list (trkChunkTimes t)) :: rat) / of_nat (length (trkChunkTimes t))
                    * of_nat (trkTotalChunks t - trkCompletedChunks t)\<rceil>)"
  by (simp add: estimateTimeRemaining_def Let_def foldl_plus_sum_list)

text \<open>
  C7 says that the estimate after the k-th of n chunks is the ceiling of the mean processing
  duration of the completed chunks times the number of remaining chunks. On the two-page job
  each chunk takes the worker 500 ms and compresses to 3 bytes; the estimate reported after
  the first chunk is 3, the byte length, where the claim gives 500.
\<close>

theorem eta_two_chunk_job:
  "chunkWorker workingEnv = (\<lambda>msg. ChunkComplete (take 3 (msgPdfData msg)) 500)
   \<and> map estimatedTimeRemaining
         (filter (\<lambda>ev. phase ev = Compressing)
            (fst (compressWithPreset workingEnv pdfHeader twoChunkOptions)))
       = [None, Some 3, None, None]"
  by (simp add: two_chunk_pass) (simp add: workingEnv_def placeholderEnv_def)

section \<open>Statistics of a pass\<close>

text \<open>Every size that \<^verbatim>\<open>chunkStats\<close> records as \<^verbatim>\<open>originalSize\<close> is read from a detached buffer.\<close>

lemma chunkLoop_original_sizes:
  assumes "chunkLoop e pdfBuffer opts cs totalPages n i trk chunks chunkStats
             = (trk', Resolved (chunks', chunkStats'))"
      and "\<forall>s \<in> set chunkStats. fst s = 0"
  shows "\<forall>s \<in> set chunkStats'. fst s = 0"
  using assms
proof (induction e pdfBuffer opts cs totalPages n i trk chunks chunkStats rule: chunkLoop.induct)
  case (1 e pdfBuffer opts cs totalPages n i trk chunks chunkStats)
  show ?case
  proof (cases "i < n")
    case False
    then show ?thesis
      using "1.prems" by (subst (asm) chunkLoop.simps) simp
  next
    case True
    obtain chunkPdf where
      x: "extractPages e pdfBuffer (fst (chunkRange cs totalPages i))
            (snd (chunkRange cs totalPages i)) = Resolved chunkPdf"
      using "1.prems"(1) True
      by (subst (asm) chunkLoop.simps) (auto split: promise.splits)
    obtain compressed where
      c: "snd (compressChunk e chunkPdf opts i) = Resolved compressed"
      using "1.prems"(1) True x
      by (subst (asm) chunkLoop.simps) (auto split: promise.splits)
    have d: "byteLength (fst (compressChunk e chunkPdf opts i)) = 0"
      by (simp add: compressChunk_def Let_def)
    have next_run:
      "chunkLoop e pdfBuffer opts cs totalPages n (i + 1)
         (completeChunk i (length compressed) (startChunk i trk)) (chunks @ [compressed])
         (chunkStats @ [(byteLength (fst (compressChunk e chunkPdf opts i)), length compressed)])
       = (trk', Resolved (chunks', chunkStats'))"
      using "1.prems"(1) True x c
      by (subst (asm) chunkLoop.simps) simp
    have "\<forall>s \<in> set (chunkStats
             @ [(byteLength (fst (compressChunk e chunkPdf opts i)), length compressed)]).
            fst s = 0"
      using "1.prems"(2) d by simp
    then show ?thesis
      using "1.IH" [OF True x c next_run] by blast
  qed
qed

lemma foldl_original_sizes:
  "\<forall>s \<in> set chunkStats. fst s = (0::nat) \<Longrightarrow> foldl (\<lambda>sum s. sum + fst s) a chunkStats = a"
  by (induction chunkStats arbitrary: a) simp_all

lemma resolved_pass_original_size:
  assumes "snd (compressWithPreset e pdfBuffer opts) = Resolved r"
  shows "originalSize (stats r) = 0"
proof -
  obtain totalPages where tp: "countPages e pdfBuffer = Resolved totalPages"
    using assms by (auto simp: compressWithPreset_def Let_def split: promise.splits)
  let ?cs = "effectiveChunkSize e opts totalPages (length pdfBuffer)"
  let ?trk3 = "reportChunkingProgress 100 (reportChunkingProgress 50
                 (setTotalChunks (numChunksOf totalPages ?cs)
                    (setPhase Chunking (newTracker (onProgress opts)))))"
  obtain trk4 outcome where
    loop: "chunkLoop e pdfBuffer opts ?cs totalPages (numChunksOf totalPages ?cs) 0 ?trk3 [] []
             = (trk4, outcome)"
    by (cases "chunkLoop e pdfBuffer opts ?cs totalPages (numChunksOf totalPages ?cs) 0
                 ?trk3 [] []") blast
  obtain chunks chunkStats where out: "outcome = Resolved (chunks, chunkStats)"
    using assms tp loop
    by (cases outcome) (auto simp: compressWithPreset_def Let_def)
  have zero: "\<forall>s \<in> set chunkStats. fst s = 0"
    using chunkLoop_original_sizes [OF loop [unfolded out]] by simp
  show ?thesis
    using assms tp loop out foldl_original_sizes [OF zero, of 0]
    by (auto simp: compressWithPreset_def Let_def split: promise.splits prod.splits)
qed

text \<open>
  C10 says that the stats of a successful pass are consistent and that originalSize is the
  sum of the extracted per-chunk input sizes. On the two-page job the two extracted chunks
  have 5 bytes each, and the pass reports originalSize 0, ratio Infinity and percentageSaved
  -Infinity: \<^verbatim>\<open>chunkPdf.byteLength\<close> is read after the buffer was transferred to the worker.
\<close>

theorem stats_two_chunk_job:
  "extractPages workingEnv pdfHeader 0 1 = Resolved (pdfHeader @ [0])
   \<and> extractPages workingEnv pdfHeader 1 2 = Resolved (pdfHeader @ [1])
   \<and> length (pdfHeader @ [0]) + length (pdfHeader @ [1]) = 10
   \<and> snd (compressWithPreset workingEnv pdfHeader twoChunkOptions)
       = Resolved \<lparr>pdf = take 3 pdfHeader @ take 3 pdfHeader,
                   stats = \<lparr>originalSize = 0, compressedSize = 6, ratio = PosInfinity,
                            bytesSaved = - 6, percentageSaved = NegInfinity,
                            chunksProcessed = 2\<rparr>\<rparr>"
  by (simp add: two_chunk_pass)
     (simp add: extractPages_def workingEnv_def placeholderEnv_def pdfHeader_def upt_rec)

section \<open>Failure with graceful degradation disabled\<close>

lemma orchestrate_disabled_rejects:
  assumes "isValidPDF pdfBuffer"
      and "gracefulDegradation opts = Some False"
      and "snd (compressWithPreset e pdfBuffer opts) = Rejected err"
  shows "snd (orchestrateCompression e pdfBuffer opts) = Rejected err"
proof -
  have same: "opts\<lparr>preset := preset opts\<rparr> = opts"
    by simp
  show ?thesis
    using assms by (simp add: orchestrateCompression_def Let_def same)
qed

text \<open>
  C6 says that with graceful degradation disabled a failed pass makes the call reject with a
  CompressionError carrying preset, original size, phase and cause. With the workers the
  orchestrator ships, the call rejects with the plain Error the pass threw.
\<close>

theorem disabled_degradation_rejects_plain_error:
  "snd (compress placeholderEnv (Buffer (ArrayBuffer pdfHeader))
          (noOptions\<lparr>gracefulDegradation := Some False\<rparr>))
     = Rejected (Error ''Worker not implemented yet'')
   \<and> \<not> isCompressionError (Error ''Worker not implemented yet'')"
proof -
  let ?opts = "noOptions\<lparr>gracefulDegradation := Some False\<rparr>"
  let ?full = "withDefaults Balanced ?opts"
  have v: "isValidPDF pdfHeader"
    by code_simp
  have g: "gracefulDegradation ?full = Some False"
    by (simp add: withDefaults_def)
  have cs: "chunkSize ?full = None"
    by (simp add: withDefaults_def noOptions_def)
  note run = orchestrate_disabled_rejects [OF v g placeholder_pass_rejected [OF cs]]
  have p: "parsePreset (presetOrDefault ?opts) = Some Balanced"
    by (simp add: parsePreset_def presetOrDefault_def noOptions_def)
  have w: "loadWASM placeholderEnv (wasmUrl ?full) = Resolved ()"
    by (simp add: loadWASM_def placeholderEnv_def)
  have "snd (compress placeholderEnv (Buffer (ArrayBuffer pdfHeader)) ?opts)
          = snd (orchestrateCompression placeholderEnv pdfHeader ?full)"
    by (simp add: compress_def p w Let_def) (simp add: pdfHeader_def)
  then show ?thesis
    using run by simp
qed

end
